theory Spec2Isabelle
  imports Main "HOL-Library.Word" "HOL-Library.Sublist"
begin

section \<open>JavaScript strings\<close>

text \<open>
  A JavaScript string is a sequence of UTF-16 code units. The chunker and the prompt
  builder only compare, concatenate, split and trim such sequences, so a string is
  modelled as a list of 16-bit words. \<open>js\<close> turns an ASCII literal of the theory into
  its code units.
\<close>

type_synonym jsstring = "16 word list"

definition js :: "string \<Rightarrow> jsstring" where
  "js s = map (\<lambda>c. of_nat (of_char c)) s"

definition hash :: "16 word" where
  "hash = 0x23"

definition newline :: "16 word" where
  "newline = 0x0A"

definition blank :: "16 word" where
  "blank = 0x20"

text \<open>
  The characters that \<open>String.prototype.trim\<close> strips and that the regular expression
  class \<open>\s\<close> matches are the same set: ECMAScript's WhiteSpace and LineTerminator
  productions (TAB, LF, VT, FF, CR, SP, NBSP, U+1680, U+2000..U+200A, LS, PS, U+202F,
  U+205F, U+3000 and the byte order mark U+FEFF).
\<close>

definition isSpace :: "16 word \<Rightarrow> bool" where
  "isSpace c \<longleftrightarrow>
     c = 0x09 \<or> c = 0x0A \<or> c = 0x0B \<or> c = 0x0C \<or> c = 0x0D \<or> c = 0x20 \<or> c = 0xA0 \<or>
     c = 0x1680 \<or> (0x2000 \<le> c \<and> c \<le> 0x200A) \<or> c = 0x2028 \<or> c = 0x2029 \<or>
     c = 0x202F \<or> c = 0x205F \<or> c = 0x3000 \<or> c = 0xFEFF"

definition trimStart :: "jsstring \<Rightarrow> jsstring" where
  "trimStart s = dropWhile isSpace s"

definition trimEnd :: "jsstring \<Rightarrow> jsstring" where
  "trimEnd s = rev (dropWhile isSpace (rev s))"

definition trim :: "jsstring \<Rightarrow> jsstring" where
  "trim s = trimEnd (trimStart s)"

text \<open>
  \<open>s.split('\n')\<close>: splitting at a one-character separator. The result is never
  empty; the empty string gives one empty piece.
\<close>

fun splitChar :: "16 word \<Rightarrow> jsstring \<Rightarrow> jsstring list" where
  "splitChar sep [] = [[]]"
| "splitChar sep (c # s) =
     (if c = sep then [] # splitChar sep s
      else (case splitChar sep s of
              [] \<Rightarrow> [[c]]
            | l # ls \<Rightarrow> (c # l) # ls))"

text \<open>\<open>xs.join(sep)\<close> for a list of strings.\<close>

fun joinWith :: "jsstring \<Rightarrow> jsstring list \<Rightarrow> jsstring" where
  "joinWith sep [] = []"
| "joinWith sep [x] = x"
| "joinWith sep (x # y # ys) = x @ sep @ joinWith sep (y # ys)"

text \<open>
  \<open>s.replace(pat, rep)\<close> with a string pattern replaces the first occurrence of
  \<open>pat\<close> only. The replacement used by the chunker is the empty string, which holds
  no \<open>$\<close> pattern.
\<close>

fun replaceFirst :: "jsstring \<Rightarrow> jsstring \<Rightarrow> jsstring \<Rightarrow> jsstring" where
  "replaceFirst pat rep [] = (if pat = [] then rep else [])"
| "replaceFirst pat rep (c # s) =
     (if prefix pat (c # s) then rep @ drop (length pat) (c # s)
      else c # replaceFirst pat rep s)"

text \<open>The decimal digits of an index, as \<open>`${index}`\<close> prints them.\<close>

fun decimal :: "nat \<Rightarrow> jsstring" where
  "decimal n =
     (if n < 10 then [0x30 + of_nat n]
      else decimal (n div 10) @ [0x30 + of_nat (n mod 10)])"

declare decimal.simps [simp del]

section \<open>The response chunker\<close>

record GeneratedContentChunk =
  id :: jsstring
  title :: jsstring
  content :: jsstring

text \<open>
  The regular expression \<open>/(?=###\s)/\<close> matches the empty string at every position
  that is followed by three hash signs and one white-space character. It has no
  anchor and no flag.
\<close>

fun atHeading :: "jsstring \<Rightarrow> bool" where
  "atHeading (a # b # c # d # _) \<longleftrightarrow> a = hash \<and> b = hash \<and> c = hash \<and> isSpace d"
| "atHeading _ \<longleftrightarrow> False"

text \<open>
  \<open>s.split(/(?=###\s)/)\<close>. ECMAScript's split walks the positions \<open>q\<close> of the string
  from the start \<open>p\<close> of the current piece; an empty match at \<open>q = p\<close> is skipped, and
  an empty match at \<open>q > p\<close> closes the piece \<open>[p, q)\<close> and starts the next at \<open>q\<close>.
  So the first character of the input always belongs to the first piece, and a new
  piece starts before every later position where the expression matches.
\<close>

fun splitHeadings :: "jsstring \<Rightarrow> jsstring list" where
  "splitHeadings [] = [[]]"
| "splitHeadings (c # s) =
     (if atHeading s then [c] # splitHeadings s
      else (case splitHeadings s of
              [] \<Rightarrow> [[c]]
            | seg # segs \<Rightarrow> (c # seg) # segs))"

definition sections :: "jsstring \<Rightarrow> jsstring list" where
  "sections rawContent = filter (\<lambda>s. trim s \<noteq> []) (splitHeadings rawContent)"

text \<open>
  The callback of \<open>sections.map\<close>. \<open>lines[0]\<close> is the head of a list that
  \<open>splitChar\<close> never returns empty (lemma \<open>splitChar_not_Nil\<close> below).
\<close>

definition sectionChunk :: "nat \<Rightarrow> jsstring \<Rightarrow> GeneratedContentChunk" where
  "sectionChunk index section =
     (let lines = splitChar newline (trim section);
          title = trim (replaceFirst (js ''###'') [] (hd lines));
          content = trim (joinWith [newline] (drop 1 lines))
      in \<lparr>id = js ''chunk-'' @ decimal index, title = title, content = content\<rparr>)"

definition parseContent :: "jsstring \<Rightarrow> GeneratedContentChunk list" where
  "parseContent rawContent =
     (if rawContent = [] then []
      else
        let secs = sections rawContent in
        if length secs \<le> 1 \<and> trim rawContent \<noteq> [] then
          [\<lparr>id = js ''chunk-0'', title = js ''Generated Content'', content = trim rawContent\<rparr>]
        else map (\<lambda>(index, section). sectionChunk index section) (enumerate 0 secs))"

text \<open>A string that \<open>trim\<close> leaves as it is: it neither starts nor ends with white space.\<close>

definition trimmed :: "jsstring \<Rightarrow> bool" where
  "trimmed s \<longleftrightarrow> s = [] \<or> (\<not> isSpace (hd s) \<and> \<not> isSpace (last s))"

text \<open>The offsets, from the start of the text, at which a list of pieces is cut.\<close>

fun cutPoints :: "jsstring list \<Rightarrow> nat list" where
  "cutPoints [] = []"
| "cutPoints [x] = []"
| "cutPoints (x # y # ys) = length x # map (\<lambda>k. length x + k) (cutPoints (y # ys))"

section \<open>The prompt builder\<close>

record ProductImage =
  base64 :: jsstring
  mimeType :: jsstring

text \<open>
  The interface \<open>ContentGenerationParams\<close>. A field declared with \<open>?\<close> may be
  undefined and is an option here.
\<close>

record ContentGenerationParams =
  productName :: jsstring
  contentType :: jsstring
  country :: jsstring
  tone :: jsstring
  contentLength :: "jsstring option"
  starRating :: "jsstring option"
  seoKeywords :: "jsstring option"
  companyName :: "jsstring option"
  occasion :: "jsstring option"
  brandVoice :: "jsstring option"
  generateAbTest :: bool
  generateSocialPost :: bool
  productImage :: "ProductImage option"

definition CONTENT_TYPES :: "jsstring list" where
  "CONTENT_TYPES =
     [js ''Product Description'', js ''Product Reviews (3)'', js ''Social Media Post'',
      js ''Email Campaign'', js ''Blog Post Intro'', js ''Ad Copy'']"

text \<open>
  JavaScript truthiness of a string: it is true unless the string is empty; an
  optional string is true when it is defined and not empty.
\<close>

definition truthy :: "jsstring option \<Rightarrow> bool" where
  "truthy x = (case x of None \<Rightarrow> False | Some s \<Rightarrow> s \<noteq> [])"

text \<open>
  \<open>if (x) basePrompt += f(x)\<close>: the text that such a statement appends for an optional
  string \<open>x\<close>.
\<close>

definition whenSet :: "jsstring option \<Rightarrow> (jsstring \<Rightarrow> jsstring) \<Rightarrow> jsstring" where
  "whenSet x f = (case x of None \<Rightarrow> [] | Some s \<Rightarrow> if s \<noteq> [] then f s else [])"

definition star :: "16 word" where
  "star = 0x2B50"

definition seoText :: jsstring where
  \<open>seoText = js ''\<newline>**SEO Focus:** Start with a compelling, SEO-optimized introductory sentence or meta description (under 160 characters) that naturally incorporates the primary keywords. This sentence should serve as a powerful hook.''\<close>

definition seoDirective :: "ContentGenerationParams \<Rightarrow> jsstring" where
  "seoDirective params =
     (if truthy (seoKeywords params) \<and> productName params \<noteq> [] then seoText else [])"

text \<open>The text that the \<open>switch\<close> over \<open>params.contentType\<close> appends to the prompt.\<close>

definition taskSwitch :: "ContentGenerationParams \<Rightarrow> jsstring" where
  \<open>taskSwitch params =
     (if contentType params = js ''Product Description'' then
        js ''**Task:** Write a compelling product description.'' @ seoDirective params @
        js '' Then, detail the key features and benefits, and end with a call to action. Weave the SEO keywords throughout the description.'' @
        (case contentLength params of
           None \<Rightarrow> []
         | Some len \<Rightarrow>
             if len \<noteq> [] \<and> len \<noteq> js ''Default''
             then js '' Keep the length '' @ len @ js ''.'' else [])
      else if contentType params = js ''Product Reviews (3)'' then
        js ''**Task:** Generate three distinct and realistic product reviews from different customer personas (e.g., a gift buyer, a long-time fan, a first-time customer).'' @
        whenSet (starRating params) (\<lambda>rating.
          js '' The reviews should reflect a '' @ rating @
          js '' rating. You can represent the stars visually (e.g., '' @ replicate 5 star @
          js ''). Do not add any other metadata like 'Product Name' to the review body.'')
      else if contentType params = js ''Social Media Post'' then
        js ''**Task:** Create an engaging social media post suitable for platforms like Instagram or Facebook.'' @ seoDirective params @
        js '' Include relevant, popular hashtags at the end.''
      else if contentType params = js ''Email Campaign'' then
        js ''**Task:** Write copy for an email campaign. It MUST include an attention-grabbing subject line and a clear call-to-action (CTA) button text.'' @ seoDirective params @
        js '' The email body should expand on this hook. Format it like:\<newline>### Subject: [Your Subject Here]\<newline>\<newline>[Email body here]\<newline>\<newline>### CTA Button: [Your CTA Text Here]''
      else if contentType params = js ''Blog Post Intro'' then
        js ''**Task:** Write an introductory paragraph for a blog post about this product.'' @ seoDirective params @
        js '' It should hook the reader and briefly state what the post will cover.''
      else if contentType params = js ''Ad Copy'' then
        js ''**Task:** Write two short, punchy ad copy variations. Each should have a clear headline and a concise body text. Format it like:\<newline>### Ad 1: [Headline]\<newline>\<newline>[Body]\<newline>\<newline>### Ad 2: [Headline]\<newline>\<newline>[Body]''
      else
        js ''**Task:** Generate the content as requested.'')\<close>

text \<open>
  The local variable \<open>basePrompt\<close> of \<open>buildPrompt\<close> when the function reaches its
  regeneration test: the fixed instructions, the echoed parameters, the task and the
  additional requirements.
\<close>

definition basePrompt :: "ContentGenerationParams \<Rightarrow> jsstring" where
  \<open>basePrompt params =
     (let base = js ''\<newline>You are an expert, world-class e-commerce copywriter for fashion and jewelry brands. Your writing is sophisticated, engaging, and SEO-optimized.\<newline>\<newline>**CRITICAL INSTRUCTION:** Your final output should ONLY be the generated content itself, formatted in markdown with "###" for each distinct section/title. DO NOT repeat the input parameters like "Product Name:", "Tone:", etc., in your response. The product name and keywords should be woven naturally into the text.\<newline>\<newline>---\<newline>**CONTENT DETAILS**\<newline>---\<newline>'';
          base = base @ js ''**Product Name/Link:** '' @ productName params @ js ''\<newline>'';
          base = base @ js ''**Tone of Voice:** '' @ tone params @ js ''\<newline>'';
          base = base @ js ''**Target Audience/Country:** '' @ country params @ js ''\<newline>'';
          base = base @ whenSet (companyName params) (\<lambda>v. js ''**Company Name:** '' @ v @ js ''\<newline>'');
          base = base @ whenSet (occasion params) (\<lambda>v. js ''**Occasion:** '' @ v @ js ''\<newline>'');
          base = base @ whenSet (brandVoice params) (\<lambda>v. js ''**Brand Voice Guidelines:** '' @ v @ js ''\<newline>'');
          base = base @ whenSet (seoKeywords params) (\<lambda>v. js ''**SEO Keywords to include naturally:** '' @ v @ js ''\<newline>'');
          base = base @ js ''\<newline>---\<newline>**GENERATION TASK**\<newline>---\<newline>'';
          base = base @ js ''**Content Type to Generate:** '' @ contentType params @ js ''\<newline>'';
          base = base @ taskSwitch params;
          base = base @ js ''\<newline>'';
          base = base @ (if generateAbTest params then js ''\<newline>**Also generate one A/B test variant** for the primary content. Title it "### A/B Test Variant: [Original Title]".'' else []);
          base = base @ (if generateSocialPost params \<and> contentType params \<noteq> js ''Social Media Post''
                         then js ''\<newline>**Also generate a related social media post**. Title it "### Social Media Post".'' else [])
      in base)\<close>

definition buildPrompt ::
  "ContentGenerationParams \<Rightarrow> GeneratedContentChunk option \<Rightarrow> jsstring" where
  \<open>buildPrompt params chunkToRegen =
     (case chunkToRegen of
        Some chunk \<Rightarrow>
          js ''\<newline>You are an expert e-commerce copywriter. Based on the original parameters provided below, your task is to regenerate ONLY the content for the section titled "'' @ title chunk @
          js ''". \<newline>\<newline>**CRITICAL INSTRUCTION:** Provide ONLY the new text for this section. Do not include the title or any markdown like "###". Just the raw, regenerated content.\<newline>\<newline>---\<newline>**ORIGINAL PARAMETERS**\<newline>---\<newline>'' @ basePrompt params @ js ''\<newline>''
      | None \<Rightarrow> basePrompt params @ js ''\<newline>Now, generate the content based on these instructions.'')\<close>

text \<open>
  The two parts of \<open>basePrompt\<close> around the \<open>switch\<close>: what the function has
  appended before it (fixed instructions, echoed parameters, the content-type line)
  and what it appends after it (the line break and the additional requirements).
\<close>

definition promptHead :: "ContentGenerationParams \<Rightarrow> jsstring" where
  \<open>promptHead params =
     (let base = js ''\<newline>You are an expert, world-class e-commerce copywriter for fashion and jewelry brands. Your writing is sophisticated, engaging, and SEO-optimized.\<newline>\<newline>**CRITICAL INSTRUCTION:** Your final output should ONLY be the generated content itself, formatted in markdown with "###" for each distinct section/title. DO NOT repeat the input parameters like "Product Name:", "Tone:", etc., in your response. The product name and keywords should be woven naturally into the text.\<newline>\<newline>---\<newline>**CONTENT DETAILS**\<newline>---\<newline>'';
          base = base @ js ''**Product Name/Link:** '' @ productName params @ js ''\<newline>'';
          base = base @ js ''**Tone of Voice:** '' @ tone params @ js ''\<newline>'';
          base = base @ js ''**Target Audience/Country:** '' @ country params @ js ''\<newline>'';
          base = base @ whenSet (companyName params) (\<lambda>v. js ''**Company Name:** '' @ v @ js ''\<newline>'');
          base = base @ whenSet (occasion params) (\<lambda>v. js ''**Occasion:** '' @ v @ js ''\<newline>'');
          base = base @ whenSet (brandVoice params) (\<lambda>v. js ''**Brand Voice Guidelines:** '' @ v @ js ''\<newline>'');
          base = base @ whenSet (seoKeywords params) (\<lambda>v. js ''**SEO Keywords to include naturally:** '' @ v @ js ''\<newline>'');
          base = base @ js ''\<newline>---\<newline>**GENERATION TASK**\<newline>---\<newline>'';
          base = base @ js ''**Content Type to Generate:** '' @ contentType params @ js ''\<newline>''
      in base)\<close>

definition promptTail :: "ContentGenerationParams \<Rightarrow> jsstring" where
  \<open>promptTail params =
     js ''\<newline>'' @
     (if generateAbTest params then js ''\<newline>**Also generate one A/B test variant** for the primary content. Title it "### A/B Test Variant: [Original Title]".'' else []) @
     (if generateSocialPost params \<and> contentType params \<noteq> js ''Social Media Post''
      then js ''\<newline>**Also generate a related social media post**. Title it "### Social Media Post".'' else [])\<close>

section \<open>The chunk reassembler and the chunk list of the output component\<close>

text \<open>
  \<open>updateFullContentFromChunks\<close> computes the new raw text and hands it to the callback
  \<open>onUpdateFullContent\<close>; the function below is the text it hands over.
\<close>

definition updateFullContentFromChunks :: "GeneratedContentChunk list \<Rightarrow> jsstring" where
  "updateFullContentFromChunks updatedChunks =
     joinWith (js ''\<newline>\<newline>'')
       (map (\<lambda>c. js ''### '' @ title c @ js ''\<newline>\<newline>'' @ content c) updatedChunks)"

text \<open>
  The state of the component \<open>ContentOutput\<close> that the handlers read and write: its
  chunk list, the id of the chunk being regenerated, and the two properties
  \<open>rawContent\<close> and \<open>params\<close> held by the parent, whose callback
  \<open>handleUpdateFullContent\<close> stores the text it receives as the new raw content.
\<close>

record OutputState =
  chunks :: "GeneratedContentChunk list"
  regeneratingChunkId :: "jsstring option"
  rawContent :: "jsstring option"
  params :: "ContentGenerationParams option"

text \<open>The effect that follows a change of \<open>rawContent\<close>: \<open>setChunks(parseContent(rawContent || ''))\<close>.\<close>

definition showRawContent :: "jsstring option \<Rightarrow> OutputState \<Rightarrow> OutputState" where
  "showRawContent raw st =
     st\<lparr>rawContent := raw,
        chunks := parseContent (case raw of None \<Rightarrow> [] | Some r \<Rightarrow> r)\<rparr>"

definition handleDeleteChunk :: "jsstring \<Rightarrow> OutputState \<Rightarrow> OutputState" where
  "handleDeleteChunk cid st =
     (let newChunks = filter (\<lambda>chunk. id chunk \<noteq> cid) (chunks st)
      in st\<lparr>chunks := newChunks, rawContent := Some (updateFullContentFromChunks newChunks)\<rparr>)"

definition handleUpdateChunk :: "jsstring \<Rightarrow> jsstring \<Rightarrow> OutputState \<Rightarrow> OutputState" where
  "handleUpdateChunk cid newContent st =
     (let newChunks = map (\<lambda>chunk. if id chunk = cid then chunk\<lparr>content := newContent\<rparr> else chunk)
                          (chunks st)
      in st\<lparr>chunks := newChunks, rawContent := Some (updateFullContentFromChunks newChunks)\<rparr>)"


section \<open>Single-chunk regeneration\<close>

text \<open>
  The one-shot call \<open>ai.models.generateContent\<close> is outside the program. It receives a
  request and either throws (an \<open>Error\<close> with a message, or some other value) or
  answers with a response whose \<open>text\<close> is a string or undefined.
\<close>

datatype part = InlineData jsstring jsstring | TextPart jsstring

record request =
  model :: jsstring
  parts :: "part list"

datatype thrown = JsError jsstring | OtherValue

datatype outcome = Throws thrown | Responds "jsstring option"

definition regenerateRequest ::
  "ContentGenerationParams \<Rightarrow> GeneratedContentChunk \<Rightarrow> request" where
  "regenerateRequest ps chunkToRegen =
     (let prompt = buildPrompt ps (Some chunkToRegen);
          parts = (case productImage ps of
                     None \<Rightarrow> []
                   | Some img \<Rightarrow> [InlineData (mimeType img) (base64 img)]);
          parts = parts @ [TextPart prompt]
      in \<lparr>model = js ''gemini-2.5-flash'', parts = parts\<rparr>)"

text \<open>
  \<open>regenerateContentChunk\<close>: the body of the \<open>try\<close> block, then the \<open>catch\<close> block
  that wraps whatever was thrown, the block's own error for an empty text included.
\<close>

definition regenerateContentChunk ::
  "(request \<Rightarrow> outcome) \<Rightarrow> ContentGenerationParams \<Rightarrow> GeneratedContentChunk \<Rightarrow> thrown + jsstring" where
  "regenerateContentChunk generateContent ps chunkToRegen =
     (let attempt =
            (case generateContent (regenerateRequest ps chunkToRegen) of
               Throws e \<Rightarrow> Inl e
             | Responds text \<Rightarrow>
                 if \<not> truthy text then Inl (JsError (js ''Received an empty response from the AI.''))
                 else Inr (trim (case text of None \<Rightarrow> [] | Some t \<Rightarrow> t)))
      in case attempt of
           Inr newContent \<Rightarrow> Inr newContent
         | Inl (JsError message) \<Rightarrow> Inl (JsError (js ''Failed to regenerate content: '' @ message))
         | Inl OtherValue \<Rightarrow> Inl (JsError (js ''An unknown error occurred while regenerating content.'')))"

text \<open>
  \<open>handleRegenerateChunk\<close>: without parameters nothing happens; otherwise the chunk is
  marked as regenerating, the new body replaces the old one on success, a failure is
  only logged, and the mark is cleared in both cases.
\<close>

definition handleRegenerateChunk ::
  "(request \<Rightarrow> outcome) \<Rightarrow> GeneratedContentChunk \<Rightarrow> OutputState \<Rightarrow> OutputState" where
  "handleRegenerateChunk generateContent chunkToRegen st =
     (case params st of
        None \<Rightarrow> st
      | Some ps \<Rightarrow>
          (let st1 = st\<lparr>regeneratingChunkId := Some (id chunkToRegen)\<rparr>;
               st2 = (case regenerateContentChunk generateContent ps chunkToRegen of
                        Inr newContent \<Rightarrow>
                          (let newChunks = map (\<lambda>c. if id c = id chunkToRegen
                                                       then c\<lparr>content := newContent\<rparr> else c) (chunks st1)
                           in st1\<lparr>chunks := newChunks,
                                  rawContent := Some (updateFullContentFromChunks newChunks)\<rparr>)
                      | Inl e \<Rightarrow> st1)
           in st2\<lparr>regeneratingChunkId := None\<rparr>))"

section \<open>Chunk lists that survive the round trip\<close>

text \<open>
  A text is free of headings when no \<open>###\<close> in it is followed by white space or
  stands at its very end (where the reassembler would put a line break after it).
\<close>

definition headingFree :: "jsstring \<Rightarrow> bool" where
  "headingFree t \<longleftrightarrow> list_all (\<lambda>u. \<not> atHeading (u @ [newline])) (suffixes t)"

text \<open>
  The chunks that reassembling and parsing give back: title and body are not empty
  and carry no white space at their ends, the title holds no line feed, and neither
  holds a heading marker.
\<close>

definition roundTripChunk :: "GeneratedContentChunk \<Rightarrow> bool" where
  "roundTripChunk c \<longleftrightarrow>
     title c \<noteq> [] \<and> content c \<noteq> [] \<and> trimmed (title c) \<and> trimmed (content c) \<and>
     newline \<notin> set (title c) \<and> headingFree (title c) \<and> headingFree (content c)"

text \<open>The chunk list with the ids that the chunker assigns by position.\<close>

definition renumber :: "GeneratedContentChunk list \<Rightarrow> GeneratedContentChunk list" where
  "renumber C = map (\<lambda>(i, c). c\<lparr>id := js ''chunk-'' @ decimal i\<rparr>) (enumerate 0 C)"

text \<open>
  Auxiliary notions of the proofs: \<open>noCut x y\<close> says that the split finds no position
  inside \<open>x\<close> when \<open>y\<close> follows it; \<open>piece\<close> is the text the reassembler emits for one
  chunk and \<open>segsOf\<close> the pieces into which the reassembled text is split again;
  \<open>digitsValue\<close> reads a decimal numeral back.
\<close>

definition noCut :: "jsstring \<Rightarrow> jsstring \<Rightarrow> bool" where
  "noCut x y \<longleftrightarrow> (\<forall>u. u \<noteq> [] \<and> suffix u x \<longrightarrow> \<not> atHeading (u @ y))"

definition piece :: "GeneratedContentChunk \<Rightarrow> jsstring" where
  "piece c = js ''### '' @ title c @ js ''\<newline>\<newline>'' @ content c"

fun segsOf :: "GeneratedContentChunk list \<Rightarrow> jsstring list" where
  "segsOf [] = [[]]"
| "segsOf [c] = [piece c]"
| "segsOf (c # d # r) = (piece c @ [newline, newline]) # segsOf (d # r)"

definition digitsValue :: "jsstring \<Rightarrow> nat" where
  "digitsValue ds = foldl (\<lambda>a d. 10 * a + (unat d - 48)) 0 ds"

section \<open>Parameters that do not carry the SEO hook themselves\<close>

text \<open>
  The content types whose task has a place for the SEO hook, a piece of the label of
  the hook, the parameter texts that the prompt echoes, and the parameter sets none of
  whose echoed texts contains that piece of the label.
\<close>

definition hookTypes :: "jsstring list" where
  "hookTypes = [js ''Product Description'', js ''Social Media Post'', js ''Email Campaign'',
                js ''Blog Post Intro'']"

definition hookToken :: jsstring where
  "hookToken = js ''Focus:**''"

definition given :: "jsstring option \<Rightarrow> jsstring list" where
  "given x = (case x of None \<Rightarrow> [] | Some v \<Rightarrow> [v])"

definition echoedFields :: "ContentGenerationParams \<Rightarrow> jsstring list" where
  "echoedFields ps =
     [productName ps, tone ps, country ps, contentType ps] @ given (companyName ps) @
     given (occasion ps) @ given (brandVoice ps) @ given (seoKeywords ps) @
     given (contentLength ps) @ given (starRating ps)"

definition hookFree :: "ContentGenerationParams \<Rightarrow> bool" where
  "hookFree ps \<longleftrightarrow> list_all (\<lambda>f. \<not> sublist hookToken f) (echoedFields ps)"

text \<open>
  Auxiliary notion of the proofs: a text is sealed when it does not contain the piece
  of the label and does not end with one of its characters, so that no occurrence can
  begin in it and run into what follows.
\<close>

definition sealed :: "jsstring \<Rightarrow> bool" where
  "sealed s \<longleftrightarrow> \<not> sublist hookToken s \<and> (s = [] \<or> last s \<notin> set hookToken)"

section \<open>Example values\<close>

text \<open>
  The parameters of the specification's scenario: an advertisement for the
  \<open>Aurora Necklace\<close>, here with one SEO keyword.
\<close>

definition exampleParams :: ContentGenerationParams where
  "exampleParams =
     \<lparr>productName = js ''Aurora Necklace'', contentType = js ''Ad Copy'',
      country = js ''USA'', tone = js ''Professional'',
      contentLength = None, starRating = None, seoKeywords = Some (js ''gold''),
      companyName = None, occasion = None, brandVoice = None,
      generateAbTest = False, generateSocialPost = False, productImage = None\<rparr>"

definition chunkA :: GeneratedContentChunk where
  "chunkA = \<lparr>id = js ''chunk-0'', title = js ''A'', content = js ''a''\<rparr>"

definition chunkB :: GeneratedContentChunk where
  "chunkB = \<lparr>id = js ''chunk-1'', title = js ''B'', content = js ''b''\<rparr>"

definition exampleState :: OutputState where
  "exampleState =
     \<lparr>chunks = [chunkA, chunkB], regeneratingChunkId = None,
      rawContent = Some (js ''### A\<newline>\<newline>a\<newline>\<newline>### B\<newline>\<newline>b''),
      params = Some exampleParams\<rparr>"

text \<open>
  The parameters of the scenario with another content type, a content length and a
  star rating.
\<close>

definition typedParams :: "jsstring \<Rightarrow> ContentGenerationParams" where
  "typedParams t =
     exampleParams\<lparr>contentType := t, contentLength := Some (js ''Short''),
                    starRating := Some (js ''5 Stars'')\<rparr>"

definition blogParams :: ContentGenerationParams where
  "blogParams = exampleParams\<lparr>contentType := js ''Blog Post Intro''\<rparr>"

section \<open>Properties of the string operations\<close>

lemma splitChar_not_Nil: "splitChar sep s \<noteq> []"
  by (induction s) (auto split: list.splits)

lemma trimStart_Nil_iff: "trimStart s = [] \<longleftrightarrow> (\<forall>c\<in>set s. isSpace c)"
  by (simp add: trimStart_def dropWhile_eq_Nil_conv)

lemma trimEnd_Nil_iff: "trimEnd s = [] \<longleftrightarrow> (\<forall>c\<in>set s. isSpace c)"
  by (simp add: trimEnd_def dropWhile_eq_Nil_conv)

lemma set_trimStart: "set (trimStart s) \<subseteq> set s"
  by (simp add: trimStart_def set_dropWhileD subsetI)

lemma trim_Nil_iff: "trim s = [] \<longleftrightarrow> (\<forall>c\<in>set s. isSpace c)"
proof
  assume "trim s = []"
  then have a: "\<forall>c\<in>set (dropWhile isSpace s). isSpace c"
    by (simp add: trim_def trimEnd_Nil_iff trimStart_def)
  show "\<forall>c\<in>set s. isSpace c"
  proof (rule ccontr)
    assume "\<not> (\<forall>c\<in>set s. isSpace c)"
    then have "dropWhile isSpace s \<noteq> []" by (simp add: dropWhile_eq_Nil_conv)
    then have "\<not> isSpace (hd (dropWhile isSpace s))" by (rule hd_dropWhile)
    moreover have "hd (dropWhile isSpace s) \<in> set (dropWhile isSpace s)"
      using \<open>dropWhile isSpace s \<noteq> []\<close> by simp
    ultimately show False using a by blast
  qed
next
  assume "\<forall>c\<in>set s. isSpace c"
  then have e: "trimStart s = []" by (simp add: trimStart_Nil_iff)
  show "trim s = []"
    by (simp only: trim_def e) (simp add: trimEnd_def)
qed

lemma trimEnd_trimmed_end: "trimEnd s \<noteq> [] \<Longrightarrow> \<not> isSpace (last (trimEnd s))"
  unfolding trimEnd_def
  by (metis hd_dropWhile last_rev rev_is_Nil_conv)

lemma hd_trimEnd: "trimEnd s \<noteq> [] \<Longrightarrow> hd (trimEnd s) = hd s"
  unfolding trimEnd_def
  by (metis dropWhile_eq_Nil_conv hd_rev last_rev rev.simps(1) rev_rev_ident  takeWhile_dropWhile_id last_appendR)

lemma trimmed_trim: "trimmed (trim s)"
proof (cases "trim s = []")
  case True then show ?thesis by (simp add: trimmed_def)
next
  case False
  then have ne: "trimStart s \<noteq> []" by (auto simp: trim_def trimEnd_def)
  have "\<not> isSpace (hd (trimStart s))" using ne unfolding trimStart_def by (rule hd_dropWhile)
  moreover have "hd (trim s) = hd (trimStart s)" using False by (simp add: trim_def hd_trimEnd)
  moreover have "\<not> isSpace (last (trim s))" using False by (simp add: trim_def trimEnd_trimmed_end)
  ultimately show ?thesis by (simp add: trimmed_def)
qed

lemma trim_trimmed: "trimmed s \<Longrightarrow> trim s = s"
proof (cases s)
  case Nil then show ?thesis by (simp add: trim_def trimEnd_def trimStart_def)
next
  case (Cons a list)
  assume "trimmed s"
  with Cons have h: "\<not> isSpace (hd s)" and l: "\<not> isSpace (last s)" and ne: "s \<noteq> []" by (auto simp: trimmed_def)
  have 1: "trimStart s = s" using h Cons by (simp add: trimStart_def)
  have "rev s \<noteq> []" using ne by simp
  then obtain b bs where r: "rev s = b # bs" by (cases "rev s") auto
  then have "b = last s" using ne by (metis hd_rev list.sel(1))
  then have "dropWhile isSpace (b # bs) = b # bs" using l by simp
  then have "rev (dropWhile isSpace (rev s)) = rev (rev s)" by (simp only: r)
  then have "trimEnd s = s" by (simp add: trimEnd_def)
  with 1 show ?thesis by (simp add: trim_def)
qed

lemma trim_append_spaces:
  assumes "trimmed x" "\<forall>c\<in>set w. isSpace c" "\<forall>c\<in>set v. isSpace c"
  shows "trim (v @ x @ w) = x"
proof (cases "x = []")
  case True
  then show ?thesis using assms by (auto simp: trim_Nil_iff)
next
  case False
  with assms have h: "\<not> isSpace (hd x)" and l: "\<not> isSpace (last x)" by (auto simp: trimmed_def)
  have "dropWhile isSpace (v @ x @ w) = dropWhile isSpace (x @ w)"
    using assms(3) by (simp add: dropWhile_append)
  also have "\<dots> = x @ w" using h False by (cases x) auto
  finally have 1: "trimStart (v @ x @ w) = x @ w" by (simp add: trimStart_def)
  have "dropWhile isSpace (rev w @ rev x) = dropWhile isSpace (rev x)"
    using assms(2) by (simp add: dropWhile_append)
  also have "\<dots> = rev x" using l False by (cases x rule: rev_cases) auto
  finally have "trimEnd (x @ w) = x" by (simp add: trimEnd_def)
  with 1 show ?thesis by (simp add: trim_def)
qed


section \<open>The chunker on concrete texts\<close>

text \<open>
  Claim C9. A text with two headings, \<open>### A\<close> followed by the line \<open>body1\<close> and
  \<open>### B\<close> followed by the line \<open>body2\<close>, is parsed into exactly two chunks, in
  this order: the first has title \<open>A\<close> and body \<open>body1\<close>, the second has title \<open>B\<close>
  and body \<open>body2\<close>; their ids are \<open>chunk-0\<close> and \<open>chunk-1\<close>.
\<close>

theorem parseContent_two_headings:
  "parseContent (js ''### A\<newline>body1\<newline>### B\<newline>body2'') =
     [\<lparr>id = js ''chunk-0'', title = js ''A'', content = js ''body1''\<rparr>,
      \<lparr>id = js ''chunk-1'', title = js ''B'', content = js ''body2''\<rparr>]"
  by code_simp

section \<open>String literals\<close>

lemma js_Nil [simp]: "js [] = []" by (simp add: js_def)
lemma js_Cons: "js (c # s) = of_nat (of_char c) # js s" by (simp add: js_def)
lemma js_append: "js (a @ b) = js a @ js b" by (simp add: js_def)
lemma length_js [simp]: "length (js s) = length s" by (simp add: js_def)

lemma unit_inj: "(of_nat (of_char c) :: 16 word) = of_nat (of_char d) \<longleftrightarrow> c = d"
proof
  assume h: "(of_nat (of_char c) :: 16 word) = of_nat (of_char d)"
  have c: "(of_char c :: nat) < 2 ^ 16" by (rule less_trans [OF nat_of_char_less_256]) simp
  have d: "(of_char d :: nat) < 2 ^ 16" by (rule less_trans [OF nat_of_char_less_256]) simp
  from h have "unat (of_nat (of_char c) :: 16 word) = unat (of_nat (of_char d) :: 16 word)" by simp
  then have "(of_char c :: nat) = of_char d" using c d by (simp add: unat_of_nat take_bit_nat_eq_self)
  then show "c = d" by simp
qed simp

lemma inj_unit: "inj (\<lambda>c. of_nat (of_char c) :: 16 word)"
  by (rule injI) (simp add: unit_inj)

lemma js_eq_iff [simp]: "js a = js b \<longleftrightarrow> a = b"
  unfolding js_def using inj_unit by (rule inj_map_eq_map)

lemma js_eq_Nil [simp]: "js a = [] \<longleftrightarrow> a = []" by (simp add: js_def)

lemma sublist_js [simp]: "sublist (js a) (js b) \<longleftrightarrow> sublist a b"
proof
  assume "sublist (js a) (js b)"
  then obtain a' where "sublist a' b" "js a = js a'"
    unfolding js_def using sublist_map_rightE by blast
  then show "sublist a b" by simp
next
  assume "sublist a b"
  then obtain ps ss where "b = ps @ a @ ss" by (auto simp: sublist_def)
  then have "js b = js ps @ js a @ js ss" by (simp add: js_append)
  then show "sublist (js a) (js b)" unfolding sublist_def by blast
qed

section \<open>The split at headings and the fallback chunk\<close>

lemma concat_splitHeadings: "concat (splitHeadings s) = s"
  by (induction s) (auto split: list.splits)

lemma splitHeadings_not_Nil: "splitHeadings s \<noteq> []"
  by (induction s) (auto split: list.splits)

lemma sections_blank: "trim s = [] \<Longrightarrow> sections s = []"
proof -
  assume "trim s = []"
  then have a: "\<forall>c\<in>set s. isSpace c" by (simp add: trim_Nil_iff)
  have "\<forall>seg\<in>set (splitHeadings s). trim seg = []"
  proof
    fix seg assume "seg \<in> set (splitHeadings s)"
    then have "set seg \<subseteq> set (concat (splitHeadings s))" by auto
    then have "set seg \<subseteq> set s" by (simp add: concat_splitHeadings)
    with a show "trim seg = []" by (auto simp: trim_Nil_iff)
  qed
  then show ?thesis by (simp add: sections_def filter_empty_conv)
qed

lemma length_sections_le: "length (sections s) \<le> length (splitHeadings s)"
  by (simp add: sections_def)

text \<open>
  Claim C8. The empty text and every text made of white space only are parsed into
  the empty chunk list. A text that is not white space only and whose split leaves at
  most one piece (before or after the white-space pieces are dropped) is parsed into
  exactly one chunk, with the fixed title \<open>Generated Content\<close> and the whole trimmed
  text as its body.
\<close>

theorem parseContent_fallback:
  "parseContent [] = [] \<and>
   (trim w = [] \<longrightarrow> parseContent w = []) \<and>
   (trim s \<noteq> [] \<and> (length (sections s) \<le> 1 \<or> length (splitHeadings s) \<le> 1) \<longrightarrow>
      parseContent s =
        [\<lparr>id = js ''chunk-0'', title = js ''Generated Content'', content = trim s\<rparr>])"
proof (intro conjI impI)
  show "parseContent [] = []" by (simp add: parseContent_def)
next
  assume "trim w = []"
  then show "parseContent w = []"
    by (simp add: parseContent_def sections_blank Let_def enumerate_eq_zip)
next
  assume h: "trim s \<noteq> [] \<and> (length (sections s) \<le> 1 \<or> length (splitHeadings s) \<le> 1)"
  then have 1: "length (sections s) \<le> 1" using length_sections_le [of s] by linarith
  from h have "s \<noteq> []" by (auto simp: trim_Nil_iff)
  with h 1 show "parseContent s =
        [\<lparr>id = js ''chunk-0'', title = js ''Generated Content'', content = trim s\<rparr>]"
    by (simp add: parseContent_def Let_def)
qed

theorem parseContent_fallback_witness:
  "trim (js '' \<newline> '') = [] \<and> parseContent (js '' \<newline> '') = [] \<and>
   trim (js ''just plain text, no heading'') \<noteq> [] \<and>
   length (sections (js ''just plain text, no heading'')) \<le> 1 \<and>
   parseContent (js ''just plain text, no heading'') =
     [\<lparr>id = js ''chunk-0'', title = js ''Generated Content'',
       content = js ''just plain text, no heading''\<rparr>]"
proof -
  have a: "trim (js '' \<newline> '') = []" by code_simp
  have b: "trim (js ''just plain text, no heading'') = js ''just plain text, no heading''" by code_simp
  have b': "trim (js ''just plain text, no heading'') \<noteq> []" by code_simp
  have c: "length (sections (js ''just plain text, no heading'')) \<le> 1" by code_simp
  show ?thesis
    using parseContent_fallback [of "js '' \<newline> ''" "js ''just plain text, no heading''"] a b b' c
    by simp
qed

lemma cutPoints_Cons_Cons:
  "cutPoints ((c # seg) # segs) = map Suc (cutPoints (seg # segs))"
  by (cases segs) simp_all

lemma cutPoints_single_Cons:
  "segs \<noteq> [] \<Longrightarrow> cutPoints ([c] # segs) = 1 # map Suc (cutPoints segs)"
  by (cases segs) simp_all

lemma set_cutPoints_splitHeadings:
  "set (cutPoints (splitHeadings s)) = {q. 0 < q \<and> q < length s \<and> atHeading (drop q s)}"
proof (induction s)
  case Nil
  then show ?case by simp
next
  case (Cons c s)
  have shift: "{q. 0 < q \<and> q < length (c # s) \<and> atHeading (drop q (c # s))} =
     (if atHeading s then {1} else {}) \<union> Suc ` {q. 0 < q \<and> q < length s \<and> atHeading (drop q s)}"
  proof (rule set_eqI)
    fix q
    show "q \<in> {q. 0 < q \<and> q < length (c # s) \<and> atHeading (drop q (c # s))} \<longleftrightarrow>
          q \<in> (if atHeading s then {1} else {}) \<union> Suc ` {q. 0 < q \<and> q < length s \<and> atHeading (drop q s)}"
    proof (cases q)
      case 0 then show ?thesis by auto
    next
      case (Suc q')
      have "atHeading s \<Longrightarrow> 0 < length s" by (cases s) auto
      then show ?thesis using Suc by (cases q') (auto simp: image_iff)
    qed
  qed
  show ?case
  proof (cases "atHeading s")
    case True
    then show ?thesis
      using Cons.IH shift splitHeadings_not_Nil [of s]
      by (simp add: cutPoints_single_Cons)
  next
    case False
    obtain seg segs where e: "splitHeadings s = seg # segs"
      using splitHeadings_not_Nil [of s] by (cases "splitHeadings s") auto
    with False Cons.IH shift show ?thesis
      by (simp add: cutPoints_Cons_Cons)
  qed
qed

text \<open>
  Claim C4, as the code has it. The pieces of the split concatenate to the input, and
  the text is cut exactly at the positions \<open>q\<close>, other than the start, where three hash
  signs followed by a white-space character begin, wherever in a line that is; the
  sections are the pieces that are not white space only.
\<close>

theorem splitHeadings_cut_positions:
  "concat (splitHeadings s) = s \<and>
   set (cutPoints (splitHeadings s)) = {q. 0 < q \<and> q < length s \<and> atHeading (drop q s)} \<and>
   sections s = filter (\<lambda>seg. trim seg \<noteq> []) (splitHeadings s)"
  by (simp add: concat_splitHeadings set_cutPoints_splitHeadings sections_def)

text \<open>
  In the text \<open>### A\<close>, new line, \<open>x ### B\<close>, new line, \<open>y\<close> the second marker
  stands at offset 8, after a space in the middle of the second line, and the text is
  cut there: the chunker returns the two chunks \<open>A\<close> and \<open>B\<close>.
\<close>

theorem split_inside_line_counterexample:
  "atHeading (drop 8 (js ''### A\<newline>x ### B\<newline>y'')) \<and>
   js ''### A\<newline>x ### B\<newline>y'' ! 7 = blank \<and>
   splitHeadings (js ''### A\<newline>x ### B\<newline>y'') = [js ''### A\<newline>x '', js ''### B\<newline>y''] \<and>
   cutPoints (splitHeadings (js ''### A\<newline>x ### B\<newline>y'')) = [8] \<and>
   parseContent (js ''### A\<newline>x ### B\<newline>y'') =
     [\<lparr>id = js ''chunk-0'', title = js ''A'', content = js ''x''\<rparr>,
      \<lparr>id = js ''chunk-1'', title = js ''B'', content = js ''y''\<rparr>]"
  by code_simp

section \<open>Regeneration of one chunk\<close>

lemma regenerate_falsy:
  assumes "generateContent (regenerateRequest ps c) = Responds text" "\<not> truthy text"
  shows "regenerateContentChunk generateContent ps c =
           Inl (JsError (js ''Failed to regenerate content: Received an empty response from the AI.''))"
  using assms by (simp add: regenerateContentChunk_def js_append [symmetric])

lemma regenerate_throws:
  assumes "generateContent (regenerateRequest ps c) = Throws t"
  shows "regenerateContentChunk generateContent ps c =
           (case t of JsError m \<Rightarrow> Inl (JsError (js ''Failed to regenerate content: '' @ m))
                    | OtherValue \<Rightarrow> Inl (JsError (js ''An unknown error occurred while regenerating content.'')))"
  using assms by (simp add: regenerateContentChunk_def split: thrown.splits)

lemma handleRegenerate_failure:
  assumes "params st = Some ps" "regenerateContentChunk generateContent ps c = Inl e"
  shows "handleRegenerateChunk generateContent c st = st\<lparr>regeneratingChunkId := None\<rparr>"
  using assms by (simp add: handleRegenerateChunk_def)

lemma regenerate_throws_differs:
  assumes "g (regenerateRequest ps c) = Throws t"
      and "t \<noteq> JsError (js ''Received an empty response from the AI.'')"
  shows "regenerateContentChunk g ps c \<noteq>
           Inl (JsError (js ''Failed to regenerate content: Received an empty response from the AI.''))"
proof (cases t)
  case (JsError m)
  with assms(2) have "m \<noteq> js ''Received an empty response from the AI.''" by simp
  moreover have "js ''Failed to regenerate content: Received an empty response from the AI.'' =
      js ''Failed to regenerate content: '' @ js ''Received an empty response from the AI.''"
    by (simp add: js_append [symmetric])
  ultimately show ?thesis
    using assms(1) JsError by (simp add: regenerateContentChunk_def)
next
  case OtherValue
  then show ?thesis using assms(1) by (simp add: regenerateContentChunk_def)
qed

text \<open>
  Claim C5. When the one-shot call answers and the text of its response is missing or
  empty, \<open>regenerateContentChunk\<close> does not return a value: it fails with the error
  whose message is \<open>Failed to regenerate content: Received an empty response from the
  AI.\<close>, raised by the function's own test and not by the call. A call that throws
  anything but an error carrying that very message fails with a different error. The
  caller \<open>handleRegenerateChunk\<close> then leaves the chunk list, and with it the body of
  the target chunk and every other chunk, and the raw text as they were, and clears
  the regenerating mark.
\<close>

theorem regenerate_empty_response:
  assumes "generateContent (regenerateRequest ps c) = Responds text"
      and "text = None \<or> text = Some []"
      and "params st = Some ps"
  shows "regenerateContentChunk generateContent ps c =
           Inl (JsError (js ''Failed to regenerate content: Received an empty response from the AI.''))
       \<and> (\<forall>g t. g (regenerateRequest ps c) = Throws t
               \<and> t \<noteq> JsError (js ''Received an empty response from the AI.'')
             \<longrightarrow> regenerateContentChunk g ps c \<noteq> regenerateContentChunk generateContent ps c)
       \<and> chunks (handleRegenerateChunk generateContent c st) = chunks st
       \<and> rawContent (handleRegenerateChunk generateContent c st) = rawContent st
       \<and> regeneratingChunkId (handleRegenerateChunk generateContent c st) = None"
proof -
  from assms(2) have f: "\<not> truthy text" by (auto simp: truthy_def)
  have r: "regenerateContentChunk generateContent ps c =
           Inl (JsError (js ''Failed to regenerate content: Received an empty response from the AI.''))"
    using assms(1) f by (rule regenerate_falsy)
  have h: "handleRegenerateChunk generateContent c st = st\<lparr>regeneratingChunkId := None\<rparr>"
    using assms(3) r by (rule handleRegenerate_failure)
  have d: "\<forall>g t. g (regenerateRequest ps c) = Throws t
               \<and> t \<noteq> JsError (js ''Received an empty response from the AI.'')
             \<longrightarrow> regenerateContentChunk g ps c \<noteq> regenerateContentChunk generateContent ps c"
    unfolding r using regenerate_throws_differs by blast
  from r h d show ?thesis by simp
qed

theorem regenerate_empty_response_witness:
  "regenerateContentChunk (\<lambda>req. Responds (Some [])) exampleParams chunkA =
     Inl (JsError (js ''Failed to regenerate content: Received an empty response from the AI.''))
   \<and> regenerateContentChunk (\<lambda>req. Throws OtherValue) exampleParams chunkA \<noteq>
       regenerateContentChunk (\<lambda>req. Responds (Some [])) exampleParams chunkA
   \<and> chunks (handleRegenerateChunk (\<lambda>req. Responds (Some [])) chunkA exampleState) = [chunkA, chunkB]
   \<and> rawContent (handleRegenerateChunk (\<lambda>req. Responds (Some [])) chunkA exampleState) =
       Some (js ''### A\<newline>\<newline>a\<newline>\<newline>### B\<newline>\<newline>b'')"
proof -
  have a: "(\<lambda>req. Responds (Some [])) (regenerateRequest exampleParams chunkA) = Responds (Some [])"
    by simp
  have b: "Some [] = None \<or> Some [] = Some ([] :: jsstring)" by simp
  have c: "params exampleState = Some exampleParams" by (simp add: exampleState_def)
  note t = regenerate_empty_response [of "\<lambda>req. Responds (Some [])" exampleParams chunkA
      "Some []" exampleState, OF refl b c]
  note t1 = t [THEN conjunct1]
  note t2 = t [THEN conjunct2, THEN conjunct1, rule_format,
      of "\<lambda>req. Throws OtherValue" OtherValue]
  note t3 = t [THEN conjunct2, THEN conjunct2]
  have n: "regenerateContentChunk (\<lambda>req. Throws OtherValue) exampleParams chunkA \<noteq>
       regenerateContentChunk (\<lambda>req. Responds (Some [])) exampleParams chunkA"
    using t2 by simp
  have e: "chunks exampleState = [chunkA, chunkB]"
    "rawContent exampleState = Some (js ''### A\<newline>\<newline>a\<newline>\<newline>### B\<newline>\<newline>b'')"
    by (simp_all add: exampleState_def)
  show ?thesis
    using t1 n t3 unfolding e by blast
qed

text \<open>
  Claim C10 at a response made of one space. The test for an empty text comes before
  the trimming, so the call succeeds and hands the empty string to the caller as the
  new body of the chunk.
\<close>

theorem regenerate_blank_response:
  "regenerateContentChunk (\<lambda>req. Responds (Some [blank])) ps c = Inr []"
  by (simp add: regenerateContentChunk_def truthy_def trim_def trimStart_def trimEnd_def isSpace_def blank_def)

lemma parseContent_trimmed:
  "c \<in> set (parseContent s) \<Longrightarrow> trimmed (title c) \<and> trimmed (content c)"
proof -
  have g: "trimmed (js ''Generated Content'')"
    by (simp add: trimmed_def js_def isSpace_def)
  assume "c \<in> set (parseContent s)"
  then show ?thesis using g
    by (auto simp: parseContent_def Let_def sectionChunk_def trimmed_trim split: if_splits)
qed

lemma regenerate_trimmed:
  "regenerateContentChunk generateContent ps c = Inr v \<Longrightarrow> trimmed v"
  by (auto simp: regenerateContentChunk_def trimmed_trim Let_def split: outcome.splits if_splits thrown.splits sum.splits)

section \<open>The round trip through the reassembler and the chunker\<close>

lemma js_marker: "js ''### '' = [hash, hash, hash, blank]" "js ''###'' = [hash, hash, hash]"
  "js ''\<newline>\<newline>'' = [newline, newline]"
  by (simp_all add: js_def hash_def blank_def newline_def)

lemma space_facts: "\<not> isSpace hash" "isSpace blank" "isSpace newline" "newline \<noteq> hash" "blank \<noteq> hash"
  "newline \<noteq> blank"
  by (simp_all add: isSpace_def hash_def blank_def newline_def)

lemma atHeading_iff: "atHeading s \<longleftrightarrow> (\<exists>d r. s = hash # hash # hash # d # r \<and> isSpace d)"
  by (cases s rule: atHeading.cases) simp_all

lemma atHeading_1: "atHeading (a # r) \<Longrightarrow> a = hash"
  by (simp add: atHeading_iff)

lemma atHeading_2: "atHeading (a # b # r) \<Longrightarrow> b = hash"
  by (simp add: atHeading_iff)

lemma atHeading_3: "atHeading (a # b # c # r) \<Longrightarrow> c = hash"
  by (simp add: atHeading_iff)

lemma atHeading_append: "atHeading u \<Longrightarrow> atHeading (u @ v)"
  by (cases u rule: atHeading.cases) simp_all

lemma atHeading_append_newline: "atHeading (u @ newline # r) = atHeading (u @ [newline])"
proof -
  have n1: "\<not> atHeading (newline # r)" using atHeading_1 space_facts(4) by blast
  have n2: "\<not> atHeading (a # newline # r)" for a using atHeading_2 space_facts(4) by blast
  have n3: "\<not> atHeading (a # b # newline # r)" for a b using atHeading_3 space_facts(4) by blast
  consider "u = []" | a where "u = [a]" | a b where "u = [a, b]" | a b c where "u = [a, b, c]"
    | a b c d v where "u = a # b # c # d # v"
    by (cases u rule: atHeading.cases) auto
  then show ?thesis
  proof cases
    case 1
    then show ?thesis by (simp add: n1)
  next
    case (2 a)
    then show ?thesis by (simp add: n2)
  next
    case (3 a b)
    then show ?thesis by (simp add: n3)
  next
    case (4 a b c)
    then show ?thesis by simp
  next
    case (5 a b c d v)
    then show ?thesis by simp
  qed
qed

lemma headingFree_iff: "headingFree t \<longleftrightarrow> (\<forall>u. suffix u t \<longrightarrow> \<not> atHeading (u @ [newline]))"
  by (auto simp: headingFree_def list_all_iff)

lemma noCut_Nil: "noCut [] y"
  by (simp add: noCut_def)

lemma noCut_append: "noCut a (b @ y) \<Longrightarrow> noCut b y \<Longrightarrow> noCut (a @ b) y"
  unfolding noCut_def
proof (intro allI impI)
  fix u
  assume A: "\<forall>u. u \<noteq> [] \<and> suffix u a \<longrightarrow> \<not> atHeading (u @ b @ y)"
     and B: "\<forall>u. u \<noteq> [] \<and> suffix u b \<longrightarrow> \<not> atHeading (u @ y)"
     and u: "u \<noteq> [] \<and> suffix u (a @ b)"
  from u have "suffix u b \<or> (\<exists>u'. u = u' @ b \<and> suffix u' a)" by (simp add: suffix_append)
  then show "\<not> atHeading (u @ y)"
  proof
    assume "suffix u b" with B u show ?thesis by blast
  next
    assume "\<exists>u'. u = u' @ b \<and> suffix u' a"
    then obtain u' where e: "u = u' @ b" "suffix u' a" by blast
    show ?thesis
    proof (cases "u' = []")
      case True
      with e u B show ?thesis by auto
    next
      case False
      with A e show ?thesis by auto
    qed
  qed
qed

lemma noCut_tl: "noCut (d # x) y \<Longrightarrow> noCut x y"
  by (auto simp: noCut_def suffix_Cons)

lemma noCut_split: "noCut x y \<Longrightarrow> atHeading y \<Longrightarrow> splitHeadings (c # x @ y) = (c # x) # splitHeadings y"
proof (induction x arbitrary: c)
  case Nil then show ?case by simp
next
  case (Cons d x)
  from Cons.prems(1) have "\<not> atHeading ((d # x) @ y)" unfolding noCut_def by blast
  moreover have "splitHeadings (d # x @ y) = (d # x) # splitHeadings y"
    using Cons.IH [OF noCut_tl [OF Cons.prems(1)] Cons.prems(2)] .
  ultimately show ?case by simp
qed

lemma noCut_last: "noCut x [] \<Longrightarrow> splitHeadings (c # x) = [c # x]"
proof (induction x arbitrary: c)
  case Nil then show ?case by simp
next
  case (Cons d x)
  have "suffix (d # x) (d # x)" by simp
  with Cons.prems have "\<not> atHeading ((d # x) @ [])" unfolding noCut_def by blast
  then have "\<not> atHeading (d # x)" by simp
  moreover have "splitHeadings (d # x) = [d # x]" using Cons.IH [OF noCut_tl [OF Cons.prems]] .
  ultimately show ?case by simp
qed

lemma noCut_marker: "noCut [hash, hash, blank] y"
proof -
  have "\<not> atHeading (hash # hash # blank # y)" using atHeading_3 space_facts(5) by blast
  moreover have "\<not> atHeading (hash # blank # y)" using atHeading_2 space_facts(5) by blast
  moreover have "\<not> atHeading (blank # y)" using atHeading_1 space_facts(5) by blast
  ultimately show ?thesis
    unfolding noCut_def by (auto simp: suffix_Cons)
qed

lemma noCut_newlines: "noCut [newline, newline] y"
proof -
  have "\<not> atHeading (newline # newline # y)" using atHeading_1 space_facts(4) by blast
  moreover have "\<not> atHeading (newline # y)" using atHeading_1 space_facts(4) by blast
  ultimately show ?thesis
    unfolding noCut_def by (auto simp: suffix_Cons)
qed

lemma noCut_headingFree: "headingFree t \<Longrightarrow> noCut t (newline # r)"
proof -
  assume h: "headingFree t"
  show ?thesis unfolding noCut_def
  proof (intro allI impI)
    fix u assume u: "u \<noteq> [] \<and> suffix u t"
    with h have "\<not> atHeading (u @ [newline])" by (simp add: headingFree_iff)
    then show "\<not> atHeading (u @ newline # r)" by (simp add: atHeading_append_newline [of u r])
  qed
qed

lemma noCut_headingFree_end: "headingFree t \<Longrightarrow> noCut t []"
proof -
  assume h: "headingFree t"
  show ?thesis unfolding noCut_def
  proof (intro allI impI)
    fix u assume u: "u \<noteq> [] \<and> suffix u t"
    with h have "\<not> atHeading (u @ [newline])" by (simp add: headingFree_iff)
    then show "\<not> atHeading (u @ [])" using atHeading_append [of u "[newline]"] by auto
  qed
qed

lemma reassemble_simps:
  "updateFullContentFromChunks [] = []"
  "updateFullContentFromChunks [c] = piece c"
  "updateFullContentFromChunks (c # d # r) =
     piece c @ [newline, newline] @ updateFullContentFromChunks (d # r)"
  by (simp_all add: updateFullContentFromChunks_def piece_def js_marker)

lemma piece_eq:
  "piece c = hash # ([hash, hash, blank] @ title c @ [newline, newline] @ content c)"
  by (simp add: piece_def js_marker)

lemma atHeading_piece: "atHeading (piece c @ r)"
  by (simp add: piece_eq space_facts)

lemma atHeading_reassemble: "C \<noteq> [] \<Longrightarrow> atHeading (updateFullContentFromChunks C)"
proof (cases C)
  case Nil then show "C \<noteq> [] \<Longrightarrow> ?thesis" by simp
next
  case (Cons c C')
  then show ?thesis using atHeading_piece [of c "[]"] atHeading_piece [of c]
    by (cases C') (simp_all add: reassemble_simps)
qed

lemma noCut_body:
  assumes "headingFree t" "noCut b z"
  shows "noCut ([hash, hash, blank] @ t @ [newline, newline] @ b) z"
proof -
  have 2: "noCut [newline, newline] (b @ z)" by (rule noCut_newlines)
  have 3: "noCut ([newline, newline] @ b) z" using 2 assms(2) by (rule noCut_append)
  have "noCut t (newline # newline # b @ z)" using assms(1) by (rule noCut_headingFree)
  then have 4: "noCut t (([newline, newline] @ b) @ z)" by simp
  have 5: "noCut (t @ [newline, newline] @ b) z" using 4 3 by (rule noCut_append)
  have 6: "noCut [hash, hash, blank] ((t @ [newline, newline] @ b) @ z)" by (rule noCut_marker)
  show ?thesis using 6 5 by (rule noCut_append)
qed

lemma splitHeadings_piece:
  assumes "roundTripChunk c"
  shows "splitHeadings (piece c) = [piece c]"
proof -
  have ht: "headingFree (title c)" and hb: "headingFree (content c)"
    using assms by (simp_all add: roundTripChunk_def)
  have "noCut (content c) []" using hb by (rule noCut_headingFree_end)
  with ht have "noCut ([hash, hash, blank] @ title c @ [newline, newline] @ content c) []"
    by (rule noCut_body)
  then show ?thesis unfolding piece_eq by (rule noCut_last)
qed

lemma splitHeadings_piece_more:
  assumes "roundTripChunk c" "atHeading y"
  shows "splitHeadings (piece c @ [newline, newline] @ y) =
           (piece c @ [newline, newline]) # splitHeadings y"
proof -
  have ht: "headingFree (title c)" and hb: "headingFree (content c)"
    using assms(1) by (simp_all add: roundTripChunk_def)
  have "noCut (content c) (newline # newline # y)"
    using hb by (rule noCut_headingFree)
  then have "noCut (content c) ([newline, newline] @ y)" by simp
  with ht have 1: "noCut ([hash, hash, blank] @ title c @ [newline, newline] @ content c) ([newline, newline] @ y)"
    by (rule noCut_body)
  have 2: "noCut [newline, newline] y" by (rule noCut_newlines)
  have "noCut (([hash, hash, blank] @ title c @ [newline, newline] @ content c) @ [newline, newline]) y"
    using 1 2 by (rule noCut_append)
  then have "splitHeadings (hash # (([hash, hash, blank] @ title c @ [newline, newline] @ content c) @ [newline, newline]) @ y)
     = (hash # (([hash, hash, blank] @ title c @ [newline, newline] @ content c) @ [newline, newline])) # splitHeadings y"
    using assms(2) by (rule noCut_split)
  then show ?thesis by (simp add: piece_eq)
qed

lemma splitHeadings_reassemble:
  "\<forall>c\<in>set C. roundTripChunk c \<Longrightarrow> splitHeadings (updateFullContentFromChunks C) = segsOf C"
proof (induction C rule: segsOf.induct)
  case 1 then show ?case by (simp add: reassemble_simps)
next
  case (2 c) then show ?case by (simp add: reassemble_simps splitHeadings_piece)
next
  case (3 c d r)
  have h: "atHeading (updateFullContentFromChunks (d # r))" by (rule atHeading_reassemble) simp
  from 3 have c: "roundTripChunk c" and ih: "splitHeadings (updateFullContentFromChunks (d # r)) = segsOf (d # r)"
    by simp_all
  have "splitHeadings (piece c @ [newline, newline] @ updateFullContentFromChunks (d # r)) =
          (piece c @ [newline, newline]) # splitHeadings (updateFullContentFromChunks (d # r))"
    using c h by (rule splitHeadings_piece_more)
  then show ?case by (simp only: reassemble_simps ih segsOf.simps)
qed

lemma hash_in_segsOf: "C \<noteq> [] \<Longrightarrow> seg \<in> set (segsOf C) \<Longrightarrow> hash \<in> set seg"
  by (induction C rule: segsOf.induct) (auto simp: piece_eq)

lemma sections_reassemble:
  assumes "\<forall>c\<in>set C. roundTripChunk c" "C \<noteq> []"
  shows "sections (updateFullContentFromChunks C) = segsOf C"
proof -
  have "\<forall>seg\<in>set (segsOf C). trim seg \<noteq> []"
    using hash_in_segsOf [OF assms(2)] space_facts(1) by (auto simp: trim_Nil_iff)
  then show ?thesis
    by (simp add: sections_def splitHeadings_reassemble [OF assms(1)])
qed

lemma length_segsOf: "C \<noteq> [] \<Longrightarrow> length (segsOf C) = length C"
  by (induction C rule: segsOf.induct) simp_all

lemma splitChar_append: "sep \<notin> set a \<Longrightarrow> splitChar sep (a @ sep # r) = a # splitChar sep r"
  by (induction a) auto

lemma joinWith_Cons_Cons: "joinWith sep ((c # l) # ls) = c # joinWith sep (l # ls)"
  by (cases ls) simp_all

lemma joinWith_Nil_Cons: "ls \<noteq> [] \<Longrightarrow> joinWith sep ([] # ls) = sep @ joinWith sep ls"
  by (cases ls) simp_all

lemma joinWith_splitChar: "joinWith [sep] (splitChar sep s) = s"
proof (induction s)
  case Nil then show ?case by simp
next
  case (Cons c s)
  obtain l ls where e: "splitChar sep s = l # ls"
    using splitChar_not_Nil [of sep s] by (cases "splitChar sep s") auto
  with Cons show ?case by (simp add: joinWith_Cons_Cons joinWith_Nil_Cons)
qed

lemma sectionChunk_piece:
  assumes "roundTripChunk c" "w = [] \<or> w = [newline, newline]"
  shows "sectionChunk i (piece c @ w) = c\<lparr>id := js ''chunk-'' @ decimal i\<rparr>"
proof -
  let ?t = "title c" and ?b = "content c"
  from assms(1) have t: "?t \<noteq> []" "trimmed ?t" "newline \<notin> set ?t"
    and b: "?b \<noteq> []" "trimmed ?b" by (simp_all add: roundTripChunk_def)
  have "\<not> isSpace (last ?b)" using b by (simp add: trimmed_def)
  then have tp: "trimmed (piece c)" using b(1) by (simp add: piece_eq trimmed_def space_facts)
  have w: "\<forall>x\<in>set w. isSpace x" using assms(2) space_facts by auto
  have "trim ([] @ piece c @ w) = piece c" using tp w by (intro trim_append_spaces) simp_all
  then have 1: "trim (piece c @ w) = piece c" by simp
  have "newline \<notin> set ([hash, hash, hash, blank] @ ?t)" using t(3) space_facts by auto
  then have "splitChar newline (([hash, hash, hash, blank] @ ?t) @ newline # newline # ?b)
      = ([hash, hash, hash, blank] @ ?t) # splitChar newline (newline # ?b)"
    by (rule splitChar_append)
  then have 2: "splitChar newline (piece c) = (hash # hash # hash # blank # ?t) # [] # splitChar newline ?b"
    by (simp add: piece_def js_marker)
  have 3: "replaceFirst (js ''###'') [] (hash # hash # hash # blank # ?t) = blank # ?t"
    by (simp add: js_marker)
  have "trim ([blank] @ ?t @ []) = ?t" using t(2) space_facts by (intro trim_append_spaces) simp_all
  then have 4: "trim (blank # ?t) = ?t" by simp
  have 5: "joinWith [newline] ([] # splitChar newline ?b) = newline # ?b"
    by (simp add: joinWith_Nil_Cons splitChar_not_Nil joinWith_splitChar)
  have "trim ([newline] @ ?b @ []) = ?b" using b(2) space_facts by (intro trim_append_spaces) simp_all
  then have 6: "trim (newline # ?b) = ?b" by simp
  have "sectionChunk i (piece c @ w) =
          \<lparr>id = js ''chunk-'' @ decimal i, title = ?t, content = ?b\<rparr>"
    by (simp add: sectionChunk_def 1 2 3 4 5 6 Let_def del: replaceFirst.simps)
  also have "\<dots> = c\<lparr>id := js ''chunk-'' @ decimal i\<rparr>" by (cases c) simp
  finally show ?thesis .
qed

lemma chunks_of_segsOf:
  "C \<noteq> [] \<Longrightarrow> \<forall>c\<in>set C. roundTripChunk c \<Longrightarrow>
     map (\<lambda>(index, section). sectionChunk index section) (enumerate n (segsOf C)) =
     map (\<lambda>(i, c). c\<lparr>id := js ''chunk-'' @ decimal i\<rparr>) (enumerate n C)"
proof (induction C arbitrary: n rule: segsOf.induct)
  case 1 then show ?case by simp
next
  case (2 c)
  then show ?case using sectionChunk_piece [of c "[]" n] by simp
next
  case (3 c d r)
  then show ?case using sectionChunk_piece [of c "[newline, newline]" n] by simp
qed

lemma fields_renumber:
  "map title (map (\<lambda>(i, c). c\<lparr>id := f i\<rparr>) (enumerate n C)) = map title C"
  "map content (map (\<lambda>(i, c). c\<lparr>id := f i\<rparr>) (enumerate n C)) = map content C"
  by (induction C arbitrary: n) simp_all

lemma reassemble_not_Nil: "C \<noteq> [] \<Longrightarrow> updateFullContentFromChunks C \<noteq> []"
  using atHeading_reassemble by fastforce

lemma parse_reassemble:
  assumes "length C \<noteq> 1" and "\<forall>c\<in>set C. roundTripChunk c"
  shows "parseContent (updateFullContentFromChunks C) = renumber C"
proof (cases "C = []")
  case True
  then show ?thesis by (simp add: reassemble_simps parseContent_def renumber_def)
next
  case False
  with assms(1) have l: "\<not> length C \<le> 1" by (cases C) auto
  have s: "sections (updateFullContentFromChunks C) = segsOf C"
    using assms(2) False by (rule sections_reassemble)
  show ?thesis
    using l False
    by (simp add: parseContent_def Let_def s length_segsOf reassemble_not_Nil
                  chunks_of_segsOf [OF False assms(2)] renumber_def)
qed

text \<open>
  Claim C1, as the code has it. Let \<open>C\<close> be a chunk list that is empty or has at least
  two chunks, each with a non-empty title and body that carry no white space at their
  ends and no heading marker, the title on one line. Then parsing the reassembled text
  gives \<open>C\<close> back with the ids assigned by position: the same length, the same order,
  the same titles and the same bodies.
\<close>

theorem round_trip:
  assumes "length C \<noteq> 1" and "\<forall>c\<in>set C. roundTripChunk c"
  shows "parseContent (updateFullContentFromChunks C) = renumber C
       \<and> length (parseContent (updateFullContentFromChunks C)) = length C
       \<and> map title (parseContent (updateFullContentFromChunks C)) = map title C
       \<and> map content (parseContent (updateFullContentFromChunks C)) = map content C"
proof -
  have r: "parseContent (updateFullContentFromChunks C) = renumber C"
    using assms by (rule parse_reassemble)
  have t: "map title (renumber C) = map title C" "map content (renumber C) = map content C"
    unfolding renumber_def by (rule fields_renumber)+
  have l: "length (renumber C) = length C" by (simp add: renumber_def)
  from r t l show ?thesis by simp
qed

lemma unat_digit: "n < 10 \<Longrightarrow> unat (0x30 + of_nat n :: 16 word) = 48 + n"
proof -
  assume "n < 10"
  then have "n \<in> {0, 1, 2, 3, 4, 5, 6, 7, 8, 9}" by auto
  then show ?thesis by auto
qed

lemma digitsValue_snoc: "digitsValue (ds @ [d]) = 10 * digitsValue ds + (unat d - 48)"
  by (simp add: digitsValue_def)

lemma digitsValue_decimal: "digitsValue (decimal n) = n"
proof (induction n rule: decimal.induct)
  case (1 n)
  show ?case
  proof (cases "n < 10")
    case True
    then show ?thesis
      by (subst decimal.simps) (simp add: digitsValue_def unat_digit)
  next
    case False
    have "n mod 10 < 10" by simp
    then have "unat (0x30 + of_nat (n mod 10) :: 16 word) = 48 + n mod 10" by (rule unat_digit)
    with False 1 show ?thesis
      by (subst decimal.simps) (simp add: digitsValue_snoc)
  qed
qed

lemma decimal_inj: "decimal m = decimal n \<Longrightarrow> m = n"
  by (metis digitsValue_decimal)

lemma ids_renumber:
  "map id (map (\<lambda>(i, c). c\<lparr>id := f i\<rparr>) (enumerate n C)) = map f [n..<n + length C]"
proof (induction C arbitrary: n)
  case Nil then show ?case by simp
next
  case (Cons c C)
  have u: "[n..<n + length (c # C)] = n # [Suc n..<Suc n + length C]"
    by (subst upt_rec) simp
  show ?case unfolding u using Cons [of "Suc n"] by simp
qed

lemma distinct_ids_renumber: "distinct (map id (renumber C))"
proof -
  have "inj (\<lambda>i. js ''chunk-'' @ decimal i)"
    by (rule injI) (simp add: decimal_inj)
  then have "inj_on (\<lambda>i. js ''chunk-'' @ decimal i) (set [0..<0 + length C])"
    by (rule inj_on_subset) simp
  then have "distinct (map (\<lambda>i. js ''chunk-'' @ decimal i) [0..<0 + length C])"
    by (simp add: distinct_map)
  then show ?thesis unfolding renumber_def by (simp only: ids_renumber)
qed

lemma update_same_content:
  assumes "distinct (map id cs)" "c \<in> set cs"
  shows "map (\<lambda>chunk. if id chunk = id c then chunk\<lparr>content := content c\<rparr> else chunk) cs = cs"
proof (rule map_idI)
  fix x assume x: "x \<in> set cs"
  from assms(1) have "inj_on id (set cs)" by (simp add: distinct_map)
  then have "id x = id c \<Longrightarrow> x = c" using x assms(2) by (auto dest: inj_onD)
  then show "(if id x = id c then x\<lparr>content := content c\<rparr> else x) = x" by auto
qed

lemma reassemble_reid:
  "map (\<lambda>c. js ''### '' @ title c @ js ''\<newline>\<newline>'' @ content c)
       (map (\<lambda>(i, c). c\<lparr>id := f i\<rparr>) (enumerate n C)) =
   map (\<lambda>c. js ''### '' @ title c @ js ''\<newline>\<newline>'' @ content c) C"
  by (induction C arbitrary: n) simp_all

lemma reassemble_renumber: "updateFullContentFromChunks (renumber C) = updateFullContentFromChunks C"
  unfolding updateFullContentFromChunks_def renumber_def by (simp only: reassemble_reid)

lemma roundTrip_examples: "roundTripChunk chunkA" "roundTripChunk chunkB"
  by code_simp+

theorem round_trip_witness:
  "length [chunkA, chunkB] \<noteq> 1 \<and> roundTripChunk chunkA \<and> roundTripChunk chunkB \<and>
   parseContent (updateFullContentFromChunks [chunkA, chunkB]) = [chunkA, chunkB]"
proof -
  have a: "length [chunkA, chunkB] \<noteq> 1" by simp
  have b: "\<forall>c\<in>set [chunkA, chunkB]. roundTripChunk c" by (simp add: roundTrip_examples)
  have c: "renumber [chunkA, chunkB] = [chunkA, chunkB]" by code_simp
  from round_trip [OF a b] c show ?thesis by (simp add: roundTrip_examples)
qed

text \<open>
  A list of one chunk with title \<open>A\<close> and body \<open>a\<close> does not come back: its
  reassembled text splits into one section only, so the chunker returns the fallback
  chunk titled \<open>Generated Content\<close> whose body is the whole text, heading included.
\<close>

theorem round_trip_single_counterexample:
  "title chunkA \<noteq> [] \<and> content chunkA \<noteq> [] \<and>
   parseContent (updateFullContentFromChunks [chunkA]) =
     [\<lparr>id = js ''chunk-0'', title = js ''Generated Content'',
       content = js ''### A\<newline>\<newline>a''\<rparr>] \<and>
   map title (parseContent (updateFullContentFromChunks [chunkA])) \<noteq> map title [chunkA]"
  by code_simp

text \<open>
  The handler by itself: when the raw text on display is the reassembly of a chunk list
  that survives the round trip, setting the body of one displayed chunk to its current
  value leaves the raw text and the chunk list as they were.
\<close>

lemma handleUpdateChunk_same_body:
  assumes "length C \<noteq> 1" and "\<forall>c\<in>set C. roundTripChunk c"
      and "st = showRawContent (Some (updateFullContentFromChunks C)) st0"
      and "c \<in> set (chunks st)"
  shows "rawContent (handleUpdateChunk (id c) (content c) st) = rawContent st
       \<and> chunks (handleUpdateChunk (id c) (content c) st) = chunks st"
proof -
  have p: "parseContent (updateFullContentFromChunks C) = renumber C"
    using assms(1,2) by (rule parse_reassemble)
  have cs: "chunks st = renumber C" and rc: "rawContent st = Some (updateFullContentFromChunks C)"
    using assms(3) p by (simp_all add: showRawContent_def)
  have d: "distinct (map id (chunks st))" unfolding cs by (rule distinct_ids_renumber)
  have m: "map (\<lambda>chunk. if id chunk = id c then chunk\<lparr>content := content c\<rparr> else chunk) (chunks st) = chunks st"
    using d assms(4) by (rule update_same_content)
  show ?thesis
    by (simp add: handleUpdateChunk_def Let_def m rc) (simp add: cs reassemble_renumber)
qed

lemma handleUpdateChunk_same_body_example:
  "chunkA \<in> set (chunks (showRawContent (Some (updateFullContentFromChunks [chunkA, chunkB])) exampleState)) \<and>
   rawContent (handleUpdateChunk (id chunkA) (content chunkA)
       (showRawContent (Some (updateFullContentFromChunks [chunkA, chunkB])) exampleState)) =
     Some (js ''### A\<newline>\<newline>a\<newline>\<newline>### B\<newline>\<newline>b'')"
proof -
  have a: "length [chunkA, chunkB] \<noteq> 1" by simp
  have b: "\<forall>c\<in>set [chunkA, chunkB]. roundTripChunk c" by (simp add: roundTrip_examples)
  have c: "chunks (showRawContent (Some (updateFullContentFromChunks [chunkA, chunkB])) exampleState) = [chunkA, chunkB]"
    by code_simp
  have d: "chunkA \<in> set (chunks (showRawContent (Some (updateFullContentFromChunks [chunkA, chunkB])) exampleState))"
    unfolding c by simp
  have e: "rawContent (showRawContent (Some (updateFullContentFromChunks [chunkA, chunkB])) exampleState) =
     Some (js ''### A\<newline>\<newline>a\<newline>\<newline>### B\<newline>\<newline>b'')"
    by code_simp
  from handleUpdateChunk_same_body [OF a b refl d] d e show ?thesis by simp
qed

text \<open>
  On a raw text in another layout the handler, were it called with the current body,
  would rewrite the text: headings and bodies separated by single line feeds come back
  with blank lines after each heading and between the chunks. The card's test keeps
  this call from happening.
\<close>

lemma handleUpdateChunk_rewrites_layout:
  "map content (chunks (showRawContent (Some (js ''### A\<newline>body1\<newline>### B\<newline>body2'')) exampleState)) =
     [js ''body1'', js ''body2''] \<and>
   rawContent (handleUpdateChunk (js ''chunk-0'') (js ''body1'')
       (showRawContent (Some (js ''### A\<newline>body1\<newline>### B\<newline>body2'')) exampleState)) =
     Some (js ''### A\<newline>\<newline>body1\<newline>\<newline>### B\<newline>\<newline>body2'') \<and>
   js ''### A\<newline>\<newline>body1\<newline>\<newline>### B\<newline>\<newline>body2'' \<noteq>
     js ''### A\<newline>body1\<newline>### B\<newline>body2''"
  by code_simp



section \<open>The task directive of each content type\<close>

lemma sublist_later: "sublist x b \<Longrightarrow> sublist x (a @ b)"
  by (metis sublist_append_leftI sublist_order.order.trans)

lemma sublist_taskSwitch_base: "sublist (taskSwitch ps) (basePrompt ps)"
  unfolding basePrompt_def Let_def append_assoc
  by (rule sublist_append_rightI | rule sublist_later)+

lemma sublist_base_prompt: "sublist (basePrompt ps) (buildPrompt ps chunkToRegen)"
proof (cases chunkToRegen)
  case None
  then show ?thesis by (simp add: buildPrompt_def)
next
  case (Some chunk)
  then show ?thesis
    unfolding buildPrompt_def by (simp del: sublist_appendI) (rule sublist_append_rightI | rule sublist_later)+
qed

lemma sublist_taskSwitch_prompt: "sublist (taskSwitch ps) (buildPrompt ps chunkToRegen)"
  using sublist_taskSwitch_base sublist_base_prompt by (rule sublist_order.order.trans)

lemma task_in_prompt:
  "prefix d (taskSwitch ps) \<Longrightarrow> sublist d (buildPrompt ps chunkToRegen)"
  using prefix_imp_sublist sublist_taskSwitch_prompt sublist_order.order.trans by blast

lemma basePrompt_parts: "basePrompt ps = promptHead ps @ taskSwitch ps @ promptTail ps"
  by (simp add: basePrompt_def promptHead_def promptTail_def Let_def)

text \<open>
  Claim C7. The prompt is the head (instructions, echoed parameters, content-type
  line), then the text of the \<open>switch\<close>, then the tail, followed by the closing line
  or, with a target chunk, wrapped for regeneration. For each of the six content types
  of \<open>CONTENT_TYPES\<close> the text of the \<open>switch\<close> is the task directive of that type and
  nothing else: the directive with the SEO hook in its place where the type has one,
  followed by the length directive of a product description when \<open>contentLength\<close> is
  set and not \<open>Default\<close>, or by the star-rating sentence of the reviews when
  \<open>starRating\<close> is set. For every other content type it is the generic directive.
\<close>

theorem task_directive_dispatch:
  \<open>buildPrompt ps None =
     promptHead ps @ taskSwitch ps @ promptTail ps @ js ''\<newline>Now, generate the content based on these instructions.'' \<and>
   buildPrompt ps (Some c) =
     js ''\<newline>You are an expert e-commerce copywriter. Based on the original parameters provided below, your task is to regenerate ONLY the content for the section titled "'' @ title c @
     js ''". \<newline>\<newline>**CRITICAL INSTRUCTION:** Provide ONLY the new text for this section. Do not include the title or any markdown like "###". Just the raw, regenerated content.\<newline>\<newline>---\<newline>**ORIGINAL PARAMETERS**\<newline>---\<newline>'' @
     promptHead ps @ taskSwitch ps @ promptTail ps @ js ''\<newline>'' \<and>
   sublist (taskSwitch ps) (buildPrompt ps chunkToRegen) \<and>
   (contentType ps = js ''Product Description'' \<longrightarrow>
      taskSwitch ps =
        js ''**Task:** Write a compelling product description.'' @ seoDirective ps @
        js '' Then, detail the key features and benefits, and end with a call to action. Weave the SEO keywords throughout the description.'' @
        (case contentLength ps of
           None \<Rightarrow> []
         | Some len \<Rightarrow>
             if len \<noteq> [] \<and> len \<noteq> js ''Default''
             then js '' Keep the length '' @ len @ js ''.'' else [])) \<and>
   (contentType ps = js ''Product Reviews (3)'' \<longrightarrow>
      taskSwitch ps =
        js ''**Task:** Generate three distinct and realistic product reviews from different customer personas (e.g., a gift buyer, a long-time fan, a first-time customer).'' @
        (case starRating ps of
           None \<Rightarrow> []
         | Some rating \<Rightarrow>
             if rating \<noteq> []
             then js '' The reviews should reflect a '' @ rating @
                  js '' rating. You can represent the stars visually (e.g., '' @ replicate 5 star @
                  js ''). Do not add any other metadata like 'Product Name' to the review body.''
             else [])) \<and>
   (contentType ps = js ''Social Media Post'' \<longrightarrow>
      taskSwitch ps =
        js ''**Task:** Create an engaging social media post suitable for platforms like Instagram or Facebook.'' @ seoDirective ps @
        js '' Include relevant, popular hashtags at the end.'') \<and>
   (contentType ps = js ''Email Campaign'' \<longrightarrow>
      taskSwitch ps =
        js ''**Task:** Write copy for an email campaign. It MUST include an attention-grabbing subject line and a clear call-to-action (CTA) button text.'' @ seoDirective ps @
        js '' The email body should expand on this hook. Format it like:\<newline>### Subject: [Your Subject Here]\<newline>\<newline>[Email body here]\<newline>\<newline>### CTA Button: [Your CTA Text Here]'') \<and>
   (contentType ps = js ''Blog Post Intro'' \<longrightarrow>
      taskSwitch ps =
        js ''**Task:** Write an introductory paragraph for a blog post about this product.'' @ seoDirective ps @
        js '' It should hook the reader and briefly state what the post will cover.'') \<and>
   (contentType ps = js ''Ad Copy'' \<longrightarrow>
      taskSwitch ps =
        js ''**Task:** Write two short, punchy ad copy variations. Each should have a clear headline and a concise body text. Format it like:\<newline>### Ad 1: [Headline]\<newline>\<newline>[Body]\<newline>\<newline>### Ad 2: [Headline]\<newline>\<newline>[Body]'') \<and>
   (contentType ps \<notin> set CONTENT_TYPES \<longrightarrow>
      taskSwitch ps = js ''**Task:** Generate the content as requested.'')\<close>
proof -
  have 1: \<open>buildPrompt ps None =
     promptHead ps @ taskSwitch ps @ promptTail ps @ js ''\<newline>Now, generate the content based on these instructions.''\<close>
    by (simp add: buildPrompt_def basePrompt_parts)
  have 2: \<open>buildPrompt ps (Some c) =
     js ''\<newline>You are an expert e-commerce copywriter. Based on the original parameters provided below, your task is to regenerate ONLY the content for the section titled "'' @ title c @
     js ''". \<newline>\<newline>**CRITICAL INSTRUCTION:** Provide ONLY the new text for this section. Do not include the title or any markdown like "###". Just the raw, regenerated content.\<newline>\<newline>---\<newline>**ORIGINAL PARAMETERS**\<newline>---\<newline>'' @
     promptHead ps @ taskSwitch ps @ promptTail ps @ js ''\<newline>''\<close>
    by (simp add: buildPrompt_def basePrompt_parts)
  have 3: "sublist (taskSwitch ps) (buildPrompt ps chunkToRegen)"
    by (rule sublist_taskSwitch_prompt)
  have 4: \<open>(contentType ps = js ''Product Description'' \<longrightarrow>
      taskSwitch ps =
        js ''**Task:** Write a compelling product description.'' @ seoDirective ps @
        js '' Then, detail the key features and benefits, and end with a call to action. Weave the SEO keywords throughout the description.'' @
        (case contentLength ps of
           None \<Rightarrow> []
         | Some len \<Rightarrow>
             if len \<noteq> [] \<and> len \<noteq> js ''Default''
             then js '' Keep the length '' @ len @ js ''.'' else []))\<close>
    by (simp add: taskSwitch_def)
  have 5: \<open>(contentType ps = js ''Product Reviews (3)'' \<longrightarrow>
      taskSwitch ps =
        js ''**Task:** Generate three distinct and realistic product reviews from different customer personas (e.g., a gift buyer, a long-time fan, a first-time customer).'' @
        (case starRating ps of
           None \<Rightarrow> []
         | Some rating \<Rightarrow>
             if rating \<noteq> []
             then js '' The reviews should reflect a '' @ rating @
                  js '' rating. You can represent the stars visually (e.g., '' @ replicate 5 star @
                  js ''). Do not add any other metadata like 'Product Name' to the review body.''
             else []))\<close>
    by (simp add: taskSwitch_def whenSet_def)
  have 6: \<open>(contentType ps = js ''Social Media Post'' \<longrightarrow>
      taskSwitch ps =
        js ''**Task:** Create an engaging social media post suitable for platforms like Instagram or Facebook.'' @ seoDirective ps @
        js '' Include relevant, popular hashtags at the end.'')\<close>
    by (simp add: taskSwitch_def)
  have 7: \<open>(contentType ps = js ''Email Campaign'' \<longrightarrow>
      taskSwitch ps =
        js ''**Task:** Write copy for an email campaign. It MUST include an attention-grabbing subject line and a clear call-to-action (CTA) button text.'' @ seoDirective ps @
        js '' The email body should expand on this hook. Format it like:\<newline>### Subject: [Your Subject Here]\<newline>\<newline>[Email body here]\<newline>\<newline>### CTA Button: [Your CTA Text Here]'')\<close>
    by (simp add: taskSwitch_def)
  have 8: \<open>(contentType ps = js ''Blog Post Intro'' \<longrightarrow>
      taskSwitch ps =
        js ''**Task:** Write an introductory paragraph for a blog post about this product.'' @ seoDirective ps @
        js '' It should hook the reader and briefly state what the post will cover.'')\<close>
    by (simp add: taskSwitch_def)
  have 9: \<open>(contentType ps = js ''Ad Copy'' \<longrightarrow>
      taskSwitch ps =
        js ''**Task:** Write two short, punchy ad copy variations. Each should have a clear headline and a concise body text. Format it like:\<newline>### Ad 1: [Headline]\<newline>\<newline>[Body]\<newline>\<newline>### Ad 2: [Headline]\<newline>\<newline>[Body]'')\<close>
    by (simp add: taskSwitch_def)
  have 10: \<open>(contentType ps \<notin> set CONTENT_TYPES \<longrightarrow>
      taskSwitch ps = js ''**Task:** Generate the content as requested.'')\<close>
    by (simp add: taskSwitch_def CONTENT_TYPES_def)
  from 1 2 3 4 5 6 7 8 9 10 show ?thesis by blast
qed

theorem task_directive_dispatch_witness:
  \<open>taskSwitch (typedParams (js ''Product Description'')) =
     js ''**Task:** Write a compelling product description.'' @ seoText @
     js '' Then, detail the key features and benefits, and end with a call to action. Weave the SEO keywords throughout the description.'' @
     js '' Keep the length '' @ js ''Short'' @ js ''.'' \<and>
   taskSwitch (typedParams (js ''Product Reviews (3)'')) =
     js ''**Task:** Generate three distinct and realistic product reviews from different customer personas (e.g., a gift buyer, a long-time fan, a first-time customer).'' @
     js '' The reviews should reflect a '' @ js ''5 Stars'' @
     js '' rating. You can represent the stars visually (e.g., '' @ replicate 5 star @
     js ''). Do not add any other metadata like 'Product Name' to the review body.'' \<and>
   taskSwitch (typedParams (js ''Social Media Post'')) =
     js ''**Task:** Create an engaging social media post suitable for platforms like Instagram or Facebook.'' @ seoText @
     js '' Include relevant, popular hashtags at the end.'' \<and>
   taskSwitch (typedParams (js ''Email Campaign'')) =
     js ''**Task:** Write copy for an email campaign. It MUST include an attention-grabbing subject line and a clear call-to-action (CTA) button text.'' @ seoText @
     js '' The email body should expand on this hook. Format it like:\<newline>### Subject: [Your Subject Here]\<newline>\<newline>[Email body here]\<newline>\<newline>### CTA Button: [Your CTA Text Here]'' \<and>
   taskSwitch (typedParams (js ''Blog Post Intro'')) =
     js ''**Task:** Write an introductory paragraph for a blog post about this product.'' @ seoText @
     js '' It should hook the reader and briefly state what the post will cover.'' \<and>
   taskSwitch (typedParams (js ''Ad Copy'')) =
     js ''**Task:** Write two short, punchy ad copy variations. Each should have a clear headline and a concise body text. Format it like:\<newline>### Ad 1: [Headline]\<newline>\<newline>[Body]\<newline>\<newline>### Ad 2: [Headline]\<newline>\<newline>[Body]'' \<and>
   taskSwitch (typedParams (js ''Poem'')) = js ''**Task:** Generate the content as requested.'' \<and>
   sublist (js ''**Task:** Generate the content as requested.'')
     (buildPrompt (typedParams (js ''Poem'')) None)\<close>
proof -
  have s: "seoDirective (typedParams t) = seoText" for t
    by (simp add: seoDirective_def typedParams_def exampleParams_def truthy_def)
  have c: "contentType (typedParams t) = t" "contentLength (typedParams t) = Some (js ''Short'')"
    "starRating (typedParams t) = Some (js ''5 Stars'')" for t
    by (simp_all add: typedParams_def)
  note d = task_directive_dispatch
  have p: \<open>taskSwitch (typedParams (js ''Poem'')) = js ''**Task:** Generate the content as requested.''\<close>
    using d [of "typedParams (js ''Poem'')" chunkA None] by (simp add: s c CONTENT_TYPES_def)
  have q: "sublist (taskSwitch (typedParams (js ''Poem''))) (buildPrompt (typedParams (js ''Poem'')) None)"
    using d [of "typedParams (js ''Poem'')" chunkA None] by blast
  show ?thesis
  proof (intro conjI)
    show \<open>taskSwitch (typedParams (js ''Product Description'')) =
     js ''**Task:** Write a compelling product description.'' @ seoText @
     js '' Then, detail the key features and benefits, and end with a call to action. Weave the SEO keywords throughout the description.'' @
     js '' Keep the length '' @ js ''Short'' @ js ''.''\<close>
      using d [of "typedParams (js ''Product Description'')" chunkA None] by (simp add: s c)
    show \<open>taskSwitch (typedParams (js ''Product Reviews (3)'')) =
     js ''**Task:** Generate three distinct and realistic product reviews from different customer personas (e.g., a gift buyer, a long-time fan, a first-time customer).'' @
     js '' The reviews should reflect a '' @ js ''5 Stars'' @
     js '' rating. You can represent the stars visually (e.g., '' @ replicate 5 star @
     js ''). Do not add any other metadata like 'Product Name' to the review body.''\<close>
      using d [of "typedParams (js ''Product Reviews (3)'')" chunkA None] by (simp add: s c)
    show \<open>taskSwitch (typedParams (js ''Social Media Post'')) =
     js ''**Task:** Create an engaging social media post suitable for platforms like Instagram or Facebook.'' @ seoText @
     js '' Include relevant, popular hashtags at the end.''\<close>
      using d [of "typedParams (js ''Social Media Post'')" chunkA None] by (simp add: s c)
    show \<open>taskSwitch (typedParams (js ''Email Campaign'')) =
     js ''**Task:** Write copy for an email campaign. It MUST include an attention-grabbing subject line and a clear call-to-action (CTA) button text.'' @ seoText @
     js '' The email body should expand on this hook. Format it like:\<newline>### Subject: [Your Subject Here]\<newline>\<newline>[Email body here]\<newline>\<newline>### CTA Button: [Your CTA Text Here]''\<close>
      using d [of "typedParams (js ''Email Campaign'')" chunkA None] by (simp add: s c)
    show \<open>taskSwitch (typedParams (js ''Blog Post Intro'')) =
     js ''**Task:** Write an introductory paragraph for a blog post about this product.'' @ seoText @
     js '' It should hook the reader and briefly state what the post will cover.''\<close>
      using d [of "typedParams (js ''Blog Post Intro'')" chunkA None] by (simp add: s c)
    show \<open>taskSwitch (typedParams (js ''Ad Copy'')) =
     js ''**Task:** Write two short, punchy ad copy variations. Each should have a clear headline and a concise body text. Format it like:\<newline>### Ad 1: [Headline]\<newline>\<newline>[Body]\<newline>\<newline>### Ad 2: [Headline]\<newline>\<newline>[Body]''\<close>
      using d [of "typedParams (js ''Ad Copy'')" chunkA None] by (simp add: s c)
    show \<open>taskSwitch (typedParams (js ''Poem'')) = js ''**Task:** Generate the content as requested.''\<close>
      by (rule p)
    show \<open>sublist (js ''**Task:** Generate the content as requested.'')
     (buildPrompt (typedParams (js ''Poem'')) None)\<close>
      using q unfolding p .
  qed
qed

lemma example_wrapper:
  \<open>buildPrompt exampleParams (Some chunkA) = js ''\<newline>You are an expert e-commerce copywriter. Based on the original parameters provided below, your task is to regenerate ONLY the content for the section titled "A". \<newline>\<newline>**CRITICAL INSTRUCTION:** Provide ONLY the new text for this section. Do not include the title or any markdown like "###". Just the raw, regenerated content.\<newline>\<newline>---\<newline>**ORIGINAL PARAMETERS**\<newline>---\<newline>\<newline>You are an expert, world-class e-commerce copywriter for fashion and jewelry brands. Your writing is sophisticated, engaging, and SEO-optimized.\<newline>\<newline>**CRITICAL INSTRUCTION:** Your final output should ONLY be the generated content itself, formatted in markdown with "###" for each distinct section/title. DO NOT repeat the input parameters like "Product Name:", "Tone:", etc., in your response. The product name and keywords should be woven naturally into the text.\<newline>\<newline>---\<newline>**CONTENT DETAILS**\<newline>---\<newline>**Product Name/Link:** Aurora Necklace\<newline>**Tone of Voice:** Professional\<newline>**Target Audience/Country:** USA\<newline>**SEO Keywords to include naturally:** gold\<newline>\<newline>---\<newline>**GENERATION TASK**\<newline>---\<newline>**Content Type to Generate:** Ad Copy\<newline>**Task:** Write two short, punchy ad copy variations. Each should have a clear headline and a concise body text. Format it like:\<newline>### Ad 1: [Headline]\<newline>\<newline>[Body]\<newline>\<newline>### Ad 2: [Headline]\<newline>\<newline>[Body]\<newline>\<newline>''\<close>
  by (simp add: buildPrompt_def basePrompt_def taskSwitch_def whenSet_def exampleParams_def
        chunkA_def js_append [symmetric])

section \<open>The regeneration wrapper\<close>

lemma prefix_js_lit: "prefix p l \<Longrightarrow> prefix (js p) (js l @ rest)"
proof -
  assume "prefix p l"
  then have "prefix (js p) (js l)" unfolding js_def by (rule map_mono_prefix)
  then show ?thesis by (rule prefix_prefix)
qed

lemma prefix_same_length: "prefix a x \<Longrightarrow> prefix b x \<Longrightarrow> length a = length b \<Longrightarrow> a = b"
  by (auto simp: prefix_def)

lemma wrapper_start:
  "prefix (js ''\<newline>You are an expert '') (buildPrompt ps (Some c))"
  unfolding buildPrompt_def option.case by (rule prefix_js_lit) simp

lemma prompt_start:
  "prefix (js ''\<newline>You are an expert,'') (buildPrompt ps None)"
  unfolding buildPrompt_def basePrompt_def Let_def option.case append_assoc
  by (rule prefix_js_lit) simp

lemma wrapper_differs: "buildPrompt ps (Some c) \<noteq> buildPrompt ps None"
proof
  assume e: "buildPrompt ps (Some c) = buildPrompt ps None"
  have "prefix (js ''\<newline>You are an expert '') (buildPrompt ps None)"
    using wrapper_start [of ps c] by (simp only: e)
  then have "js ''\<newline>You are an expert '' = js ''\<newline>You are an expert,''"
    using prompt_start by (rule prefix_same_length) simp
  then show False by simp
qed

text \<open>
  Claim C3, as the code has it. With a target chunk the function returns a wrapper
  that differs from the prompt built without one, names the section by the title of
  the target chunk, tells the model to provide only the new text of that section
  without title or heading marker, and embeds the base prompt: the prompt built
  without a target chunk less its closing line \<open>Now, generate the content based on
  these instructions.\<close>
\<close>

theorem regeneration_wrapper:
  \<open>buildPrompt ps (Some c) \<noteq> buildPrompt ps None \<and>
   sublist (js ''your task is to regenerate ONLY the content for the section titled "'' @ title c @ js ''"'')
     (buildPrompt ps (Some c)) \<and>
   sublist (js ''**CRITICAL INSTRUCTION:** Provide ONLY the new text for this section. Do not include the title or any markdown like "###". Just the raw, regenerated content.'')
     (buildPrompt ps (Some c)) \<and>
   sublist (basePrompt ps) (buildPrompt ps (Some c)) \<and>
   buildPrompt ps None = basePrompt ps @ js ''\<newline>Now, generate the content based on these instructions.''\<close>
proof (intro conjI)
  show "buildPrompt ps (Some c) \<noteq> buildPrompt ps None" by (rule wrapper_differs)
  show "sublist (basePrompt ps) (buildPrompt ps (Some c))" by (rule sublist_base_prompt)
  show \<open>buildPrompt ps None = basePrompt ps @ js ''\<newline>Now, generate the content based on these instructions.''\<close>
    by (simp add: buildPrompt_def)
  have w: \<open>js ''\<newline>You are an expert e-commerce copywriter. Based on the original parameters provided below, your task is to regenerate ONLY the content for the section titled "'' =
        js ''\<newline>You are an expert e-commerce copywriter. Based on the original parameters provided below, '' @
        js ''your task is to regenerate ONLY the content for the section titled "''\<close>
    by (simp add: js_append [symmetric])
  show \<open>sublist (js ''your task is to regenerate ONLY the content for the section titled "'' @ title c @ js ''"'')
     (buildPrompt ps (Some c))\<close>
    unfolding buildPrompt_def option.case w append_assoc
    by (rule sublist_later) (rule prefix_imp_sublist, simp add: prefix_js_lit)
  have w2: \<open>js ''". \<newline>\<newline>**CRITICAL INSTRUCTION:** Provide ONLY the new text for this section. Do not include the title or any markdown like "###". Just the raw, regenerated content.\<newline>\<newline>---\<newline>**ORIGINAL PARAMETERS**\<newline>---\<newline>'' =
        js ''". \<newline>\<newline>'' @ js ''**CRITICAL INSTRUCTION:** Provide ONLY the new text for this section. Do not include the title or any markdown like "###". Just the raw, regenerated content.'' @
        js ''\<newline>\<newline>---\<newline>**ORIGINAL PARAMETERS**\<newline>---\<newline>''\<close>
    by (simp add: js_append [symmetric])
  show \<open>sublist (js ''**CRITICAL INSTRUCTION:** Provide ONLY the new text for this section. Do not include the title or any markdown like "###". Just the raw, regenerated content.'')
     (buildPrompt ps (Some c))\<close>
    unfolding buildPrompt_def option.case w2 append_assoc
    by (rule sublist_later, rule sublist_later, rule sublist_later) (rule prefix_imp_sublist, simp)
qed

section \<open>Presence of the SEO hook\<close>

lemma sublist_barrier:
  assumes "c \<notin> set T"
  shows "sublist T (a @ c # b) \<longleftrightarrow> sublist T a \<or> sublist T b"
proof
  assume "sublist T (a @ c # b)"
  then consider "sublist T a" | "sublist T (c # b)"
    | xs1 xs2 where "T = xs1 @ xs2" "suffix xs1 a" "prefix xs2 (c # b)"
    by (auto simp: sublist_append)
  then show "sublist T a \<or> sublist T b"
  proof cases
    case 1 then show ?thesis by simp
  next
    case 2
    then have "prefix T (c # b) \<or> sublist T b" by (simp add: sublist_Cons_right)
    then show ?thesis
    proof
      assume "prefix T (c # b)"
      then have "T = []" using assms by (cases T) auto
      then show ?thesis by simp
    qed simp
  next
    case 3
    show ?thesis
    proof (cases xs2)
      case Nil
      with 3 have "suffix T a" by simp
      then show ?thesis by (simp add: suffix_imp_sublist)
    next
      case (Cons x xs)
      with 3(3) have "x = c" by simp
      with Cons 3(1) assms show ?thesis by simp
    qed
  qed
next
  assume "sublist T a \<or> sublist T b"
  then show "sublist T (a @ c # b)"
  proof
    assume "sublist T a"
    then show ?thesis by (simp add: sublist_append)
  next
    assume "sublist T b"
    then have "sublist T (c # b)" by (simp add: sublist_Cons_right)
    then show ?thesis by (simp add: sublist_append)
  qed
qed

lemma sealed_Nil: "sealed []"
  by (simp add: sealed_def hookToken_def)

lemma sealed_append: "sealed a \<Longrightarrow> sealed b \<Longrightarrow> sealed (a @ b)"
proof (cases "b = []")
  case True
  then show "sealed a \<Longrightarrow> sealed b \<Longrightarrow> ?thesis" by simp
next
  case False
  assume a: "sealed a" and b: "sealed b"
  have l: "last (a @ b) \<notin> set hookToken" using b False by (simp add: sealed_def)
  have "\<not> sublist hookToken (a @ b)"
  proof (cases a rule: rev_cases)
    case Nil
    then show ?thesis using b by (simp add: sealed_def)
  next
    case (snoc a' c)
    with a have c: "c \<notin> set hookToken" and n: "\<not> sublist hookToken (a' @ [c])"
      by (simp_all add: sealed_def)
    from n have "\<not> sublist hookToken a'" by (auto simp: sublist_append)
    moreover have "\<not> sublist hookToken b" using b by (simp add: sealed_def)
    ultimately have "\<not> sublist hookToken (a' @ c # b)" using sublist_barrier [OF c] by simp
    then show ?thesis using snoc by simp
  qed
  with l show ?thesis by (simp add: sealed_def)
qed

lemma sealed_field:
  assumes "\<not> sublist hookToken f" "sealed l" "l \<noteq> []" "hd l \<notin> set hookToken"
  shows "sealed (f @ l)"
proof -
  obtain c l' where l: "l = c # l'" using assms(3) by (cases l) auto
  with assms(4) have c: "c \<notin> set hookToken" by simp
  have "\<not> sublist hookToken l'" using assms(2) l by (auto simp: sealed_def sublist_Cons_right)
  with assms(1) have "\<not> sublist hookToken (f @ c # l')" using sublist_barrier [OF c] by simp
  moreover have "last (f @ l) \<notin> set hookToken" using assms(2,3) by (simp add: sealed_def)
  ultimately show ?thesis using l by (simp add: sealed_def)
qed

lemma sealed_line:
  assumes "sealed l1" "\<not> sublist hookToken f" "sealed l2" "l2 \<noteq> []" "hd l2 \<notin> set hookToken"
  shows "sealed (l1 @ f @ l2)"
  using assms(1) sealed_field [OF assms(2-5)] by (rule sealed_append)

lemma sealed_whenSet:
  assumes "sealed l1" "sealed l2" "l2 \<noteq> []" "hd l2 \<notin> set hookToken"
      and "\<And>v. x = Some v \<Longrightarrow> \<not> sublist hookToken v"
  shows "sealed (whenSet x (\<lambda>v. l1 @ v @ l2))"
proof (cases x)
  case None then show ?thesis by (simp add: whenSet_def sealed_Nil)
next
  case (Some v)
  have "sealed (l1 @ v @ l2)" using assms(1) assms(5) [OF Some] assms(2-4) by (rule sealed_line)
  then show ?thesis using Some by (simp add: whenSet_def sealed_Nil)
qed

lemma sealed_concat: "(\<And>x. x \<in> set xs \<Longrightarrow> sealed x) \<Longrightarrow> sealed (concat xs)"
  by (induction xs) (simp_all add: sealed_Nil sealed_append)

lemma member_js: "of_nat (of_char c) \<in> set (js t) \<longleftrightarrow> c \<in> set t"
  unfolding js_def by (auto simp: unit_inj)

lemma sealed_js:
  assumes "\<not> sublist ''Focus:**'' s" "s \<noteq> []" "last s \<notin> set ''Focus:**''"
  shows "sealed (js s)"
proof -
  have 1: "\<not> sublist hookToken (js s)" using assms(1) by (simp add: hookToken_def)
  have 2: "last (js s) = of_nat (of_char (last s))" using assms(2) by (simp add: js_def last_map)
  have 3: "last (js s) \<notin> set hookToken"
    unfolding hookToken_def 2 member_js by (rule assms(3))
  from 1 3 show ?thesis by (simp add: sealed_def)
qed

lemma hd_js:
  assumes "s \<noteq> []" "hd s \<notin> set ''Focus:**''"
  shows "hd (js s) \<notin> set hookToken"
proof -
  have 2: "hd (js s) = of_nat (of_char (hd s))" using assms(1) by (simp add: js_def hd_map)
  show ?thesis unfolding hookToken_def 2 member_js by (rule assms(2))
qed

lemma sealed_literals:
  \<open>sealed (js ''\<newline>You are an expert, world-class e-commerce copywriter for fashion and jewelry brands. Your writing is sophisticated, engaging, and SEO-optimized.\<newline>\<newline>**CRITICAL INSTRUCTION:** Your final output should ONLY be the generated content itself, formatted in markdown with "###" for each distinct section/title. DO NOT repeat the input parameters like "Product Name:", "Tone:", etc., in your response. The product name and keywords should be woven naturally into the text.\<newline>\<newline>---\<newline>**CONTENT DETAILS**\<newline>---\<newline>'')\<close>
  \<open>sealed (js ''**Product Name/Link:** '')\<close>
  \<open>sealed (js ''\<newline>'')\<close>
  \<open>sealed (js ''**Tone of Voice:** '')\<close>
  \<open>sealed (js ''**Target Audience/Country:** '')\<close>
  \<open>sealed (js ''**Company Name:** '')\<close>
  \<open>sealed (js ''**Occasion:** '')\<close>
  \<open>sealed (js ''**Brand Voice Guidelines:** '')\<close>
  \<open>sealed (js ''**SEO Keywords to include naturally:** '')\<close>
  \<open>sealed (js ''**Content Type to Generate:** '')\<close>
  \<open>sealed (js ''\<newline>---\<newline>**GENERATION TASK**\<newline>---\<newline>'')\<close>
  \<open>sealed (js ''**Task:** Write a compelling product description.'')\<close>
  \<open>sealed (js '' Then, detail the key features and benefits, and end with a call to action. Weave the SEO keywords throughout the description.'')\<close>
  \<open>sealed (js ''**Task:** Create an engaging social media post suitable for platforms like Instagram or Facebook.'')\<close>
  \<open>sealed (js '' Include relevant, popular hashtags at the end.'')\<close>
  \<open>sealed (js ''**Task:** Write copy for an email campaign. It MUST include an attention-grabbing subject line and a clear call-to-action (CTA) button text.'')\<close>
  \<open>sealed (js '' The email body should expand on this hook. Format it like:\<newline>### Subject: [Your Subject Here]\<newline>\<newline>[Email body here]\<newline>\<newline>### CTA Button: [Your CTA Text Here]'')\<close>
  \<open>sealed (js ''**Task:** Write an introductory paragraph for a blog post about this product.'')\<close>
  \<open>sealed (js '' It should hook the reader and briefly state what the post will cover.'')\<close>
  \<open>sealed (js '' Keep the length '')\<close>
  \<open>sealed (js ''.'')\<close>
  \<open>sealed (js ''**Task:** Generate three distinct and realistic product reviews from different customer personas (e.g., a gift buyer, a long-time fan, a first-time customer).'')\<close>
  \<open>sealed (js '' The reviews should reflect a '')\<close>
  \<open>sealed (js '' rating. You can represent the stars visually (e.g., '')\<close>
  \<open>sealed (js ''). Do not add any other metadata like 'Product Name' to the review body.'')\<close>
  \<open>sealed (js ''**Task:** Write two short, punchy ad copy variations. Each should have a clear headline and a concise body text. Format it like:\<newline>### Ad 1: [Headline]\<newline>\<newline>[Body]\<newline>\<newline>### Ad 2: [Headline]\<newline>\<newline>[Body]'')\<close>
  \<open>sealed (js ''**Task:** Generate the content as requested.'')\<close>
  \<open>sealed (js ''\<newline>**Also generate one A/B test variant** for the primary content. Title it "### A/B Test Variant: [Original Title]".'')\<close>
  \<open>sealed (js ''\<newline>**Also generate a related social media post**. Title it "### Social Media Post".'')\<close>
  \<open>sealed (js ''\<newline>Now, generate the content based on these instructions.'')\<close>
  by (rule sealed_js; simp add: sublist_Cons_right)+

lemma hd_literals:
  \<open>hd (js ''\<newline>'') \<notin> set hookToken\<close>
  \<open>hd (js ''.'') \<notin> set hookToken\<close>
  \<open>hd (js '' rating. You can represent the stars visually (e.g., '') \<notin> set hookToken\<close>
  by (rule hd_js; simp)+

lemma hookFree_fields:
  assumes "hookFree ps"
  shows "\<not> sublist hookToken (productName ps)" "\<not> sublist hookToken (tone ps)"
    "\<not> sublist hookToken (country ps)" "\<not> sublist hookToken (contentType ps)"
    "companyName ps = Some v \<Longrightarrow> \<not> sublist hookToken v"
    "occasion ps = Some v \<Longrightarrow> \<not> sublist hookToken v"
    "brandVoice ps = Some v \<Longrightarrow> \<not> sublist hookToken v"
    "seoKeywords ps = Some v \<Longrightarrow> \<not> sublist hookToken v"
    "contentLength ps = Some v \<Longrightarrow> \<not> sublist hookToken v"
    "starRating ps = Some v \<Longrightarrow> \<not> sublist hookToken v"
  using assms by (simp_all add: hookFree_def echoedFields_def given_def)

lemma sealed_stars: "sealed (replicate 5 star)"
proof -
  have "star \<notin> set hookToken" by (simp add: hookToken_def js_def star_def)
  moreover have "\<not> sublist hookToken (replicate 5 star)"
  proof
    assume "sublist hookToken (replicate 5 star)"
    then have "set hookToken \<subseteq> set (replicate 5 star)" by (rule set_mono_sublist)
    then show False by (simp add: hookToken_def js_def star_def)
  qed
  ultimately show ?thesis by (simp add: sealed_def)
qed

lemmas sealed_rules = sealed_append sealed_field sealed_Nil sealed_literals hd_literals sealed_stars

lemma sealed_taskSwitch:
  assumes "hookFree ps" "seoDirective ps = [] \<or> contentType ps \<notin> set hookTypes"
  shows "sealed (taskSwitch ps)"
  using assms(2) hookFree_fields(9,10) [OF assms(1)]
  by (auto simp: taskSwitch_def hookTypes_def whenSet_def sealed_rules split: option.splits)

lemma sealed_basePrompt:
  assumes "hookFree ps" "seoDirective ps = [] \<or> contentType ps \<notin> set hookTypes"
  shows "sealed (basePrompt ps)"
  using hookFree_fields [OF assms(1)] sealed_taskSwitch [OF assms]
  by (auto simp: basePrompt_def Let_def whenSet_def sealed_rules split: option.splits)

lemma token_in_seoText: "sublist hookToken seoText"
  by (simp add: hookToken_def seoText_def sublist_Cons_right)

lemma sealed_prompt:
  assumes "hookFree ps" "seoDirective ps = [] \<or> contentType ps \<notin> set hookTypes"
  shows "\<not> sublist seoText (buildPrompt ps None)"
proof
  assume "sublist seoText (buildPrompt ps None)"
  with token_in_seoText have "sublist hookToken (buildPrompt ps None)"
    by (rule sublist_order.order.trans)
  moreover have "sealed (buildPrompt ps None)"
    using sealed_basePrompt [OF assms] by (simp add: buildPrompt_def sealed_rules)
  ultimately show False by (simp add: sealed_def)
qed

lemma hook_in_taskSwitch:
  assumes "contentType ps \<in> set hookTypes"
  shows "sublist (seoDirective ps) (taskSwitch ps)"
  using assms by (auto simp: hookTypes_def taskSwitch_def)

lemma hook_in_prompt:
  assumes "truthy (seoKeywords ps)" "productName ps \<noteq> []" "contentType ps \<in> set hookTypes"
  shows "sublist seoText (buildPrompt ps None)"
proof -
  have "seoDirective ps = seoText" using assms(1,2) by (simp add: seoDirective_def)
  then have "sublist seoText (taskSwitch ps)" using hook_in_taskSwitch [OF assms(3)] by simp
  then show ?thesis using sublist_taskSwitch_prompt by (rule sublist_order.order.trans)
qed

text \<open>
  Claim C2, as the code has it. The SEO-hook directive is placed in the task of four
  content types only (product description, social media post, email campaign, blog
  post intro). For these types the prompt built without a target chunk contains the
  directive whenever both \<open>seoKeywords\<close> and \<open>productName\<close> are non-empty. Conversely,
  when none of the parameter texts echoed into the prompt contains the label text
  \<open>Focus:**\<close> of the directive themselves, a prompt that contains the directive
  has non-empty \<open>seoKeywords\<close> and \<open>productName\<close> and one of the four content types.
\<close>

theorem seo_hook_presence:
  "(truthy (seoKeywords ps) \<and> productName ps \<noteq> [] \<and> contentType ps \<in> set hookTypes \<longrightarrow>
      sublist seoText (buildPrompt ps None)) \<and>
   (hookFree ps \<and> sublist seoText (buildPrompt ps None) \<longrightarrow>
      truthy (seoKeywords ps) \<and> productName ps \<noteq> [] \<and> contentType ps \<in> set hookTypes)"
proof (intro conjI impI)
  assume "truthy (seoKeywords ps) \<and> productName ps \<noteq> [] \<and> contentType ps \<in> set hookTypes"
  then show "sublist seoText (buildPrompt ps None)" by (simp add: hook_in_prompt)
next
  assume a: "hookFree ps \<and> sublist seoText (buildPrompt ps None)"
  have n: "\<not> (seoDirective ps = [] \<or> contentType ps \<notin> set hookTypes)"
    using a sealed_prompt [of ps] by blast
  then have "seoDirective ps \<noteq> []" by simp
  then have s: "truthy (seoKeywords ps) \<and> productName ps \<noteq> []"
    by (simp add: seoDirective_def split: if_splits)
  from n s show "truthy (seoKeywords ps)" "productName ps \<noteq> []" "contentType ps \<in> set hookTypes"
    by simp_all
qed

lemma hookFree_examples: "hookFree exampleParams" "hookFree blogParams"
  by (simp_all add: hookFree_def echoedFields_def given_def exampleParams_def blogParams_def
        hookToken_def sublist_Cons_right)

theorem seo_hook_presence_witness:
  "hookFree blogParams \<and> truthy (seoKeywords blogParams) \<and> productName blogParams \<noteq> [] \<and>
   contentType blogParams \<in> set hookTypes \<and> sublist seoText (buildPrompt blogParams None)"
proof -
  have a: "truthy (seoKeywords blogParams) \<and> productName blogParams \<noteq> [] \<and>
           contentType blogParams \<in> set hookTypes"
    by (simp add: blogParams_def exampleParams_def truthy_def hookTypes_def)
  note t = seo_hook_presence [of blogParams]
  from t a have b: "sublist seoText (buildPrompt blogParams None)" by blast
  from t b hookFree_examples(2) a show ?thesis by blast
qed

text \<open>
  The parameters of the scenario ask for ad copy and give a product name and SEO
  keywords; the task of ad copy has no place for the hook, and the prompt does not
  contain the directive.
\<close>

theorem seo_hook_absent_counterexample:
  "truthy (seoKeywords exampleParams) \<and> productName exampleParams \<noteq> [] \<and>
   \<not> sublist seoText (buildPrompt exampleParams None)"
proof -
  have "contentType exampleParams \<notin> set hookTypes"
    by (simp add: exampleParams_def hookTypes_def)
  then have "\<not> sublist seoText (buildPrompt exampleParams None)"
    using hookFree_examples(1) by (simp add: sealed_prompt)
  then show ?thesis by (simp add: exampleParams_def truthy_def)
qed

lemma closing_in_prompt: "sublist (js ''Now,'') (buildPrompt ps None)"
proof -
  have \<open>js ''\<newline>Now, generate the content based on these instructions.'' = js ''\<newline>'' @ js ''Now,'' @ js '' generate the content based on these instructions.''\<close>
    by (simp add: js_append [symmetric])
  then show ?thesis by (simp add: buildPrompt_def sublist_later)
qed

text \<open>
  For the parameters of the scenario and a chunk titled \<open>A\<close>, the wrapper does not
  contain the prompt built without a target chunk: the closing line of that prompt is
  nowhere in the wrapper.
\<close>

theorem wrapper_lacks_prompt_counterexample:
  "\<not> sublist (buildPrompt exampleParams None) (buildPrompt exampleParams (Some chunkA))"
proof
  assume "sublist (buildPrompt exampleParams None) (buildPrompt exampleParams (Some chunkA))"
  with closing_in_prompt have "sublist (js ''Now,'') (buildPrompt exampleParams (Some chunkA))"
    by (rule sublist_order.order.trans)
  then show False
    by (simp add: example_wrapper sublist_Cons_right)
qed

end
